theory Spec2Isabelle
  imports Main
begin

text \<open>
  A model of the command execution and quest validation of Goblin Terminal: of
  \<open>pkg/docker/manager.go\<close> the session executor (\<open>ExecuteCommand\<close>), the validation
  probe (\<open>ExecuteValidation\<close>), \<open>RunAsRoot\<close>, \<open>RestoreEnvironment\<close> and
  \<open>StopContainer\<close>; of the package \<open>ui\<close> the constructor \<open>NewModel\<close>, \<open>Update\<close>,
  \<open>startQuest\<close>, \<open>performQuestSetup\<close> and \<open>checkWinCondition\<close>; of \<open>main\<close> the choice of
  the start index. The image build, the network, the start of the containers, the
  reset of the storage and the rendering (\<open>View\<close>) are left out. The container runtime,
  the save file and the terminal styling are parameters of the model.
\<close>

section \<open>Go strings\<close>

text \<open>
  A Go string is a sequence of bytes; \<^typ>\<open>string\<close> (a list of 8-bit characters) is
  the same thing. The functions of package \<open>strings\<close> that the program calls are written
  out on bytes.
\<close>

definition HasPrefix :: "string \<Rightarrow> string \<Rightarrow> bool" where
  "HasPrefix s p = (take (length p) s = p)"

definition HasSuffix :: "string \<Rightarrow> string \<Rightarrow> bool" where
  "HasSuffix s p = (length p \<le> length s \<and> drop (length s - length p) s = p)"

definition TrimSuffix :: "string \<Rightarrow> string \<Rightarrow> string" where
  "TrimSuffix s p = (if HasSuffix s p then take (length s - length p) s else s)"

fun Contains :: "string \<Rightarrow> string \<Rightarrow> bool" where
  "Contains [] sub = (sub = [])"
| "Contains (c # cs) sub = (HasPrefix (c # cs) sub \<or> Contains cs sub)"

text \<open>
  \<open>unicode.IsSpace\<close> holds for the runes U+0009..U+000D, U+0020, U+0085, U+00A0, U+1680,
  U+2000..U+200A, U+2028, U+2029, U+202F, U+205F and U+3000. \<open>space_runes\<close> lists their
  UTF-8 encodings. UTF-8 is a prefix code whose continuation bytes never start a rune,
  so a string starts (ends) with a white-space rune exactly when it starts (ends) with
  one of these byte sequences.
\<close>

definition space_runes :: "string list" where
  "space_runes =
     [[CHR 0x09], [CHR 0x0A], [CHR 0x0B], [CHR 0x0C], [CHR 0x0D], [CHR 0x20],
      [CHR 0xC2, CHR 0x85], [CHR 0xC2, CHR 0xA0],
      [CHR 0xE1, CHR 0x9A, CHR 0x80],
      [CHR 0xE2, CHR 0x80, CHR 0x80], [CHR 0xE2, CHR 0x80, CHR 0x81],
      [CHR 0xE2, CHR 0x80, CHR 0x82], [CHR 0xE2, CHR 0x80, CHR 0x83],
      [CHR 0xE2, CHR 0x80, CHR 0x84], [CHR 0xE2, CHR 0x80, CHR 0x85],
      [CHR 0xE2, CHR 0x80, CHR 0x86], [CHR 0xE2, CHR 0x80, CHR 0x87],
      [CHR 0xE2, CHR 0x80, CHR 0x88], [CHR 0xE2, CHR 0x80, CHR 0x89],
      [CHR 0xE2, CHR 0x80, CHR 0x8A],
      [CHR 0xE2, CHR 0x80, CHR 0xA8], [CHR 0xE2, CHR 0x80, CHR 0xA9],
      [CHR 0xE2, CHR 0x80, CHR 0xAF],
      [CHR 0xE2, CHR 0x81, CHR 0x9F],
      [CHR 0xE3, CHR 0x80, CHR 0x80]]"

text \<open>The number of bytes of the white-space rune a string starts (ends) with, or 0.\<close>

definition leading_space :: "string \<Rightarrow> nat" where
  "leading_space s =
     (case filter (HasPrefix s) space_runes of [] \<Rightarrow> 0 | r # _ \<Rightarrow> length r)"

definition trailing_space :: "string \<Rightarrow> nat" where
  "trailing_space s =
     (case filter (HasSuffix s) space_runes of [] \<Rightarrow> 0 | r # _ \<Rightarrow> length r)"

lemma space_runes_nonempty: "r \<in> set space_runes \<Longrightarrow> r \<noteq> []"
  by (auto simp: space_runes_def)

lemma leading_space_nonempty: "0 < leading_space s \<Longrightarrow> s \<noteq> []"
proof -
  assume a: "0 < leading_space s"
  then obtain r rs where f: "filter (HasPrefix s) space_runes = r # rs"
    by (auto simp: leading_space_def split: list.splits)
  then have "r \<in> set (filter (HasPrefix s) space_runes)" by simp
  then have "r \<in> set space_runes" and "HasPrefix s r" by auto
  then have "r \<noteq> []" and "take (length r) s = r"
    by (auto simp: space_runes_nonempty HasPrefix_def)
  then show "s \<noteq> []" by auto
qed

lemma trailing_space_nonempty: "0 < trailing_space s \<Longrightarrow> s \<noteq> []"
proof -
  assume a: "0 < trailing_space s"
  then obtain r rs where f: "filter (HasSuffix s) space_runes = r # rs"
    by (auto simp: trailing_space_def split: list.splits)
  then have "r \<in> set (filter (HasSuffix s) space_runes)" by simp
  then have "r \<in> set space_runes" and "HasSuffix s r" by auto
  then have "r \<noteq> []" and "length r \<le> length s"
    by (auto simp: space_runes_nonempty HasSuffix_def)
  then show "s \<noteq> []" by auto
qed

function TrimLeftSpace :: "string \<Rightarrow> string" where
  "TrimLeftSpace s =
     (if leading_space s = 0 then s else TrimLeftSpace (drop (leading_space s) s))"
  by pat_completeness auto
termination
proof (relation "measure length")
  fix s :: string
  assume "leading_space s \<noteq> 0"
  then have "0 < leading_space s" by simp
  moreover from this have "s \<noteq> []" by (rule leading_space_nonempty)
  ultimately show "(drop (leading_space s) s, s) \<in> measure length" by simp
qed simp

function TrimRightSpace :: "string \<Rightarrow> string" where
  "TrimRightSpace s =
     (if trailing_space s = 0 then s
      else TrimRightSpace (take (length s - trailing_space s) s))"
  by pat_completeness auto
termination
proof (relation "measure length")
  fix s :: string
  assume "trailing_space s \<noteq> 0"
  then have "0 < trailing_space s" by simp
  moreover from this have "s \<noteq> []" by (rule trailing_space_nonempty)
  ultimately show "(take (length s - trailing_space s) s, s) \<in> measure length" by simp
qed simp

declare TrimLeftSpace.simps [simp del] TrimRightSpace.simps [simp del]

definition TrimSpace :: "string \<Rightarrow> string" where
  "TrimSpace s = TrimRightSpace (TrimLeftSpace s)"

text \<open>
  \<open>strings.Split(s, sep)\<close> for a one-byte separator (the program only splits at the
  newline): the pieces around every occurrence of the separator, so one piece more than
  there are separators.
\<close>

fun Split :: "string \<Rightarrow> char \<Rightarrow> string list" where
  "Split [] sep = [[]]"
| "Split (c # cs) sep =
     (if c = sep then [] # Split cs sep
      else (case Split cs sep of [] \<Rightarrow> [[c]] | x # xs \<Rightarrow> (c # x) # xs))"

text \<open>The verbs \<open>%d\<close> and \<open>%5d\<close> of \<open>fmt.Sprintf\<close> on an \<open>int\<close>.\<close>

function digits :: "nat \<Rightarrow> string" where
  "digits n =
     (if n < 10 then [char_of (48 + n)]
      else digits (n div 10) @ [char_of (48 + n mod 10)])"
  by pat_completeness auto
termination
  by (relation "measure id") auto

declare digits.simps [simp del]

definition Itoa :: "int \<Rightarrow> string" where
  "Itoa i = (if i < 0 then CHR ''-'' # digits (nat (- i)) else digits (nat i))"

definition Itoa5 :: "int \<Rightarrow> string" where
  "Itoa5 i = replicate (5 - length (Itoa i)) CHR '' '' @ Itoa i"

section \<open>The container runtime\<close>

text \<open>
  Every container operation is one run of the runtime binary (\<open>exec.Command(name,
  args...)\<close>) whose output is captured. The binary and the container behind it are not
  part of the program: they are the parameter \<open>run_proc\<close>, a function of the argument
  vector and of the state \<open>'w\<close> of the outside world (container and host). A process
  writes chunks to its two streams; the buffers \<open>cmd.Stdout\<close> and \<open>cmd.Stderr\<close> see one
  stream each, \<open>CombinedOutput\<close> sees both in the order written.
\<close>

datatype stream = Stdout | Stderr

record proc_result =
  run_err :: "string option"
  written :: "(stream \<times> string) list"

definition stdout_of :: "proc_result \<Rightarrow> string" where
  "stdout_of r = concat (map snd (filter (\<lambda>c. fst c = Stdout) (written r)))"

definition stderr_of :: "proc_result \<Rightarrow> string" where
  "stderr_of r = concat (map snd (filter (\<lambda>c. fst c = Stderr) (written r)))"

definition combined_of :: "proc_result \<Rightarrow> string" where
  "combined_of r = concat (map snd (written r))"

text \<open>\<open>internal/game/persistence.go\<close>: the saved record.\<close>

record GameState =
  CurrentQuestID :: int
  MsgLog :: "string list"

text \<open>
  The environment of the program. \<open>run_proc t name args\<close> runs the binary \<open>name\<close>;
  \<open>t\<close> is the delay in seconds of the kill timer armed for the process, if there is
  one. \<open>save_state\<close> and \<open>load_state\<close> stand for \<open>SaveState\<close> and \<open>LoadState\<close>, which
  only wrap the host's file and JSON libraries around the save file; an error is its
  message. \<open>headerStyle_Render\<close> is the styling of the terminal library.
\<close>

record 'w env =
  run_proc :: "nat option \<Rightarrow> string \<Rightarrow> string list \<Rightarrow> 'w \<Rightarrow> proc_result \<times> 'w"
  save_state :: "GameState \<Rightarrow> 'w \<Rightarrow> string option \<times> 'w"
  load_state :: "'w \<Rightarrow> string + GameState"
  headerStyle_Render :: "string \<Rightarrow> string"

section \<open>The manager (\<open>pkg/docker/manager.go\<close>)\<close>

record Manager =
  ImageName :: string
  ContainerName :: string
  GatewayName :: string
  NetworkName :: string
  Runtime :: string
  CurrentDir :: string

text \<open>\<open>NewManager\<close>, given whether \<open>podman\<close> and \<open>docker\<close> are found on the path.\<close>

definition NewManager :: "bool \<Rightarrow> bool \<Rightarrow> string \<Rightarrow> string \<Rightarrow> string + Manager" where
  "NewManager podman docker imageName containerName =
     (if \<not> podman \<and> \<not> docker then Inl ''neither podman nor docker found in PATH''
      else Inr \<lparr>ImageName = imageName, ContainerName = containerName,
                GatewayName = containerName @ ''_gateway'', NetworkName = ''goblin_net'',
                Runtime = (if podman then ''podman'' else ''docker''),
                CurrentDir = ''/home/player''\<rparr>)"

text \<open>
  The program has one \<open>Manager\<close>, reached through a pointer; it is part of the state
  together with the outside world. \<open>calls\<close> is the log of the argument vectors handed
  to the runtime (binary first), in order; the program never reads it.
\<close>

record 'w state =
  manager :: Manager
  world :: 'w
  calls :: "string list list"

definition exec_Run ::
  "'w env \<Rightarrow> nat option \<Rightarrow> string \<Rightarrow> string list \<Rightarrow> 'w state \<Rightarrow> proc_result \<times> 'w state" where
  "exec_Run env t name args s =
     (let (r, w) = run_proc env t name args (world s)
      in (r, s\<lparr>world := w, calls := calls s @ [name # args]\<rparr>))"

definition StopContainer :: "'w env \<Rightarrow> 'w state \<Rightarrow> string option \<times> 'w state" where
  "StopContainer env s =
     (let (r1, s1) = exec_Run env None (Runtime (manager s))
                       [''rm'', ''-f'', ContainerName (manager s)] s;
          (r2, s2) = exec_Run env None (Runtime (manager s1))
                       [''rm'', ''-f'', GatewayName (manager s1)] s1
      in (None, s2))"

text \<open>The probe of a directory change: \<open>fmt.Sprintf("cd %s && cd %s && pwd", ...)\<close>.\<close>

definition cd_probe :: "string \<Rightarrow> string \<Rightarrow> string" where
  "cd_probe cur target = ''cd '' @ cur @ '' && cd '' @ target @ '' && pwd''"

definition is_cd :: "string \<Rightarrow> bool" where
  "is_cd trimmedCmd = (HasPrefix trimmedCmd ''cd '' \<or> trimmedCmd = ''cd'')"

definition cd_target :: "string \<Rightarrow> string" where
  "cd_target trimmedCmd =
     (if length trimmedCmd > 3 then TrimSpace (drop 3 trimmedCmd) else ''/home/player'')"

definition cd_args :: "Manager \<Rightarrow> string \<Rightarrow> string list" where
  "cd_args m trimmedCmd =
     [''exec'', ContainerName m, ''bash'', ''-c'', cd_probe (CurrentDir m) (cd_target trimmedCmd)]"

text \<open>
  \<open>ExecuteCommand\<close> returns \<open>(string, error)\<close>: the pair of the output and of the
  error's message, \<open>None\<close> for \<open>nil\<close>.
\<close>

definition ExecuteCommand ::
  "'w env \<Rightarrow> string \<Rightarrow> 'w state \<Rightarrow> (string \<times> string option) \<times> 'w state" where
  "ExecuteCommand env command s =
     (let trimmedCmd = TrimSpace command in
      if is_cd trimmedCmd then
        (let (r, s1) = exec_Run env None (Runtime (manager s)) (cd_args (manager s) trimmedCmd) s
         in case run_err r of
              Some e \<Rightarrow>
                (([], Some (if stderr_of r = [] then ''No such file or directory''
                            else stderr_of r)), s1)
            | None \<Rightarrow>
                (let newDir = TrimSpace (stdout_of r)
                 in (([], None),
                     if newDir \<noteq> [] then s1\<lparr>manager := (manager s1)\<lparr>CurrentDir := newDir\<rparr>\<rparr>
                     else s1)))
      else
        (let (r, s1) = exec_Run env (Some 5) (Runtime (manager s))
                         [''exec'', ''-w'', CurrentDir (manager s), ContainerName (manager s),
                          ''bash'', ''-c'', command] s
         in case run_err r of
              Some e \<Rightarrow>
                (if stderr_of r \<noteq> [] then (([], Some (stderr_of r)), s1)
                 else (([], Some e), s1))
            | None \<Rightarrow> ((stdout_of r, None), s1)))"

definition validation_args :: "Manager \<Rightarrow> string \<Rightarrow> string list" where
  "validation_args m command =
     [''exec'', ''-w'', ''/home/player'', ContainerName m, ''bash'', ''-c'', command]"

definition ExecuteValidation ::
  "'w env \<Rightarrow> string \<Rightarrow> 'w state \<Rightarrow> (string \<times> string option) \<times> 'w state" where
  "ExecuteValidation env command s =
     (let (r, s1) = exec_Run env None (Runtime (manager s))
                      (validation_args (manager s) command) s
      in case run_err r of
           Some e \<Rightarrow> ((stdout_of r, None), s1)
         | None \<Rightarrow> ((stdout_of r, None), s1))"

definition root_args :: "Manager \<Rightarrow> string \<Rightarrow> string list" where
  "root_args m command = [''exec'', ''-u'', ''0'', ContainerName m, ''bash'', ''-c'', command]"

text \<open>\<open>RunAsRoot\<close> returns \<open>fmt.Errorf("%v: %s", err, string(out))\<close> when the run fails.\<close>

definition RunAsRoot :: "'w env \<Rightarrow> string \<Rightarrow> 'w state \<Rightarrow> string option \<times> 'w state" where
  "RunAsRoot env command s =
     (let (r, s1) = exec_Run env None (Runtime (manager s)) (root_args (manager s) command) s
      in case run_err r of
           Some e \<Rightarrow> (Some (e @ '': '' @ combined_of r), s1)
         | None \<Rightarrow> (None, s1))"

text \<open>
  \<open>RestoreEnvironment\<close> is one function of four blocks, run in this order: the user of
  quest 10, the group of quest 16, the owner of quest 11, the mode of quest 12. A block
  that fails returns at once. Each block is a definition here.
\<close>

definition restore_user :: "'w env \<Rightarrow> int \<Rightarrow> 'w state \<Rightarrow> string option \<times> 'w state" where
  "restore_user env questID s =
     (if questID > 10 then
        (case RunAsRoot env ''id glitch'' s of
           (None, s1) \<Rightarrow> (None, s1)
         | (Some e, s1) \<Rightarrow>
             (case RunAsRoot env ''useradd glitch'' s1 of
                (Some e2, s2) \<Rightarrow> (Some (''failed to restore glitch user: '' @ e2), s2)
              | (None, s2) \<Rightarrow> (None, s2)))
      else (None, s))"

definition restore_sudo :: "'w env \<Rightarrow> int \<Rightarrow> 'w state \<Rightarrow> string option \<times> 'w state" where
  "restore_sudo env questID s =
     (if questID > 16 then
        (case ExecuteValidation env ''groups glitch'' s of
           ((out, _), s1) \<Rightarrow>
             if \<not> Contains out ''sudo'' then
               (case RunAsRoot env ''usermod -aG sudo glitch'' s1 of
                  (Some e, s2) \<Rightarrow> (Some (''failed to restore glitch sudo access: '' @ e), s2)
                | (None, s2) \<Rightarrow> (None, s2))
             else (None, s1))
      else (None, s))"

definition restore_owner :: "'w env \<Rightarrow> int \<Rightarrow> 'w state \<Rightarrow> 'w state" where
  "restore_owner env questID s =
     (if questID > 11 then
        (case ExecuteValidation env ''test -d /home/player/.safe_house'' s of
           ((_, err), s1) \<Rightarrow>
             if err = None
             then snd (RunAsRoot env ''chown glitch /home/player/.safe_house'' s1)
             else s1)
      else s)"

definition restore_mode :: "'w env \<Rightarrow> int \<Rightarrow> 'w state \<Rightarrow> 'w state" where
  "restore_mode env questID s =
     (if questID > 12 then
        (case ExecuteValidation env ''test -d /home/player/.safe_house'' s of
           ((_, err), s1) \<Rightarrow>
             if err = None
             then snd (RunAsRoot env ''chmod 700 /home/player/.safe_house'' s1)
             else s1)
      else s)"

definition RestoreEnvironment :: "'w env \<Rightarrow> int \<Rightarrow> 'w state \<Rightarrow> string option \<times> 'w state" where
  "RestoreEnvironment env questID s =
     (case restore_user env questID s of
        (Some e, s1) \<Rightarrow> (Some e, s1)
      | (None, s1) \<Rightarrow>
          (case restore_sudo env questID s1 of
             (Some e, s2) \<Rightarrow> (Some e, s2)
           | (None, s2) \<Rightarrow> (None, restore_mode env questID (restore_owner env questID s2))))"

section \<open>Quests\<close>

text \<open>\<open>WinConditionType\<close> is a Go string type; the quest file can hold any string.\<close>

definition DirExists :: string where "DirExists = ''directory_exists''"
definition FileExists :: string where "FileExists = ''file_exists''"
definition FileContains :: string where "FileContains = ''file_content_contains''"
definition CommandOut :: string where "CommandOut = ''command_output_matches''"
definition UserOutputMatch :: string where "UserOutputMatch = ''user_output_matches''"
definition UserOutputContains :: string where "UserOutputContains = ''user_output_contains''"
definition CurrentDirMatch :: string where "CurrentDirMatch = ''current_working_directory''"
definition Custom :: string where "Custom = ''custom_check''"

record WinCondition =
  Type :: string
  Target :: string
  Content :: string
  Command :: string
  Expected :: string

record Quest =
  ID :: int
  Title :: string
  IntroText :: string
  Objective :: string
  WinCondition :: WinCondition
  SuccessText :: string
  XPReward :: int
  Environment :: string
  SetupCommands :: "string list"

section \<open>The model of the user interface (package \<open>ui\<close>)\<close>

text \<open>
  The fields of \<open>Model\<close>, without the pointer to the manager, which is in the state.
\<close>

record Model =
  quests :: "Quest list"
  currentQuestIdx :: int
  gameStarted :: bool
  ready :: bool
  "output" :: "string list"
  lastOutput :: string
  input :: string
  history :: "string list"
  historyIdx :: int
  glitchText :: string
  width :: int
  height :: int
  viewportReady :: bool

datatype KeyType =
  KeyCtrlC | KeyEsc | KeyEnter | KeyUp | KeyDown | KeyBackspace | KeyRunes | KeySpace | KeyOther

text \<open>
  The messages \<open>Update\<close> receives. A key message carries its type and its runes as the
  string \<open>string(msg.Runes)\<close>. \<open>OtherMsg\<close> is any message of a type \<open>Update\<close> has no
  case for.
\<close>

datatype Msg =
  WindowSizeMsg int int
| containerReadyMsg "string option"
| commandResultMsg string "string option"
| KeyMsg KeyType string
| questCheckMsg int bool
| OtherMsg

text \<open>
  A \<open>tea.Cmd\<close> is a closure the framework runs later; its result, if any, comes back to
  \<open>Update\<close> as a message. The closures the program builds, with what they capture:
  \<open>SetupCmd\<close> is the closure of \<open>performQuestSetup\<close>, \<open>CheckCmd\<close> the closure of
  \<open>checkWinCondition\<close> (the quest, and \<open>lastOutput\<close> and \<open>currentQuestIdx\<close> of the
  model value it was built from), \<open>ExecCmd\<close> the closure that calls \<open>ExecuteCommand\<close>,
  \<open>ExitSequenceCmd\<close> the sequence built for \<open>exit\<close>.
\<close>

datatype Cmd =
  CmdNil
| Quit
| SetupCmd Quest
| CheckCmd Quest string int
| ExecCmd string
| ExitSequenceCmd

text \<open>An index out of range panics in Go: the index and the length.\<close>

datatype panic = IndexOutOfRange int nat

definition index :: "'a list \<Rightarrow> int \<Rightarrow> panic + 'a" where
  "index xs i =
     (if 0 \<le> i \<and> i < int (length xs) then Inr (xs ! nat i)
      else Inl (IndexOutOfRange i (length xs)))"

definition glitch_idle :: string where
  "glitch_idle = ''<'' @ [CHR 0x27] @ ''.'' @ [CHR 0x27] @ ''> ...''"

definition glitch_done :: string where
  "glitch_done = ''You did it! All systems normal. <^.^>''"

definition NewModel :: "Quest list \<Rightarrow> int \<Rightarrow> Model" where
  "NewModel qs startQuestID =
     (let initialText = (if length qs > 0 then ''Loading content...''
                         else ''Initializing Goblin Terminal...'');
          start1 = (if startQuestID < 0 then 0 else startQuestID);
          start2 = (if start1 \<ge> int (length qs) then int (length qs) - 1 else start1)
      in \<lparr>quests = qs, currentQuestIdx = start2, gameStarted = False, ready = False,
          output = [initialText], lastOutput = [], input = [], history = [],
          historyIdx = 0, glitchText = glitch_idle, width = 0, height = 0,
          viewportReady = False\<rparr>)"

definition quest_header :: "Quest \<Rightarrow> string" where
  "quest_header q = ''--- QUEST '' @ Itoa (ID q) @ '': '' @ Title q @ '' ---''"

definition performQuestSetup :: "Quest \<Rightarrow> Cmd" where
  "performQuestSetup q = (if length (SetupCommands q) = 0 then CmdNil else SetupCmd q)"

definition startQuest :: "Model \<Rightarrow> int \<Rightarrow> panic + Model \<times> Cmd" where
  "startQuest m idx =
     (if idx \<ge> int (length (quests m)) then Inr (m\<lparr>glitchText := glitch_done\<rparr>, CmdNil)
      else case index (quests m) idx of
             Inl p \<Rightarrow> Inl p
           | Inr q \<Rightarrow>
               Inr (m\<lparr>currentQuestIdx := idx, glitchText := IntroText q,
                      output := output m @ [quest_header q]\<rparr>,
                    performQuestSetup q))"

definition checkWinCondition :: "Model \<Rightarrow> panic + Cmd" where
  "checkWinCondition m =
     (if currentQuestIdx m \<ge> int (length (quests m)) then Inr CmdNil
      else case index (quests m) (currentQuestIdx m) of
             Inl p \<Rightarrow> Inl p
           | Inr q \<Rightarrow> Inr (CheckCmd q (lastOutput m) (currentQuestIdx m)))"

text \<open>
  The closure of \<open>checkWinCondition\<close>: the switch on the kind of the win condition. It
  reads \<open>CurrentDir\<close> of the manager when it runs.
\<close>

definition probe_passed :: "'w env \<Rightarrow> string \<Rightarrow> string \<Rightarrow> 'w state \<Rightarrow> bool \<times> 'w state" where
  "probe_passed env cmd expected s =
     (case ExecuteValidation env cmd s of
        ((out, _), s1) \<Rightarrow> (TrimSpace out = expected, s1))"

definition currentDirMatches :: "string \<Rightarrow> string \<Rightarrow> bool" where
  "currentDirMatches target cur =
     (let targetDir1 = (if \<not> HasPrefix target ''/'' then ''/home/player/'' @ target else target);
          targetDir = TrimSuffix targetDir1 ''/'';
          currentDir = TrimSuffix cur ''/''
      in currentDir = targetDir)"

text \<open>The probes built with \<open>fmt.Sprintf\<close> for the kinds that look into the container.\<close>

definition dir_probe :: "string \<Rightarrow> string" where
  "dir_probe target = ''test -d '' @ target @ '' && echo yes''"

definition file_probe :: "string \<Rightarrow> string" where
  "file_probe target = ''test -f '' @ target @ '' && echo yes''"

definition grep_probe :: "string \<Rightarrow> string \<Rightarrow> string" where
  "grep_probe content target =
     ''grep -q '' @ [CHR 0x22] @ content @ [CHR 0x22] @ '' '' @ target @ '' && echo yes''"

definition winCheck :: "'w env \<Rightarrow> Quest \<Rightarrow> string \<Rightarrow> 'w state \<Rightarrow> bool \<times> 'w state" where
  "winCheck env q lastOut s =
     (let wc = WinCondition q in
      if Type wc = CommandOut then probe_passed env (Command wc) (Expected wc) s
      else if Type wc = DirExists then probe_passed env (dir_probe (Target wc)) ''yes'' s
      else if Type wc = FileExists then probe_passed env (file_probe (Target wc)) ''yes'' s
      else if Type wc = FileContains then
        probe_passed env (grep_probe (Content wc) (Target wc)) ''yes'' s
      else if Type wc = UserOutputMatch then
        (TrimSpace lastOut = TrimSpace (Expected wc), s)
      else if Type wc = UserOutputContains then
        (Contains lastOut (Expected wc), s)
      else if Type wc = CurrentDirMatch then
        (currentDirMatches (Target wc) (CurrentDir (manager s)), s)
      else (False, s))"

definition run_check :: "'w env \<Rightarrow> Quest \<Rightarrow> string \<Rightarrow> int \<Rightarrow> 'w state \<Rightarrow> Msg \<times> 'w state" where
  "run_check env q lastOut idx s =
     (case winCheck env q lastOut s of (checkPassed, s1) \<Rightarrow> (questCheckMsg idx checkPassed, s1))"

text \<open>The closure of \<open>performQuestSetup\<close>: every setup command, results dropped.\<close>

fun run_setup :: "'w env \<Rightarrow> string list \<Rightarrow> 'w state \<Rightarrow> 'w state" where
  "run_setup env [] s = s"
| "run_setup env (c # cs) s = run_setup env cs (snd (ExecuteValidation env c s))"

subsection \<open>\<open>Update\<close>, one definition for each case of its type switch\<close>

text \<open>
  \<open>Update\<close> returns the new model value and a command, or panics. The calls it makes
  itself (\<open>RestoreEnvironment\<close>, \<open>StopContainer\<close>, \<open>SaveState\<close>) act on the state.
  \<open>startQuest\<close> changes the model through its pointer receiver while it is called in
  \<open>return m, m.startQuest(...)\<close>; the value returned is taken to be the changed one.
  The quest index is the same either way, since \<open>startQuest\<close> is called with the
  current index.
\<close>

definition Update_containerReady ::
  "'w env \<Rightarrow> Model \<Rightarrow> string option \<Rightarrow> 'w state \<Rightarrow> (panic + Model \<times> Cmd) \<times> 'w state" where
  "Update_containerReady env m err s =
     (case err of
        Some e \<Rightarrow>
          (Inr (m\<lparr>output := output m @ [''Error starting environment: '' @ e]\<rparr>, Quit), s)
      | None \<Rightarrow>
          (let m1 = m\<lparr>ready := True, gameStarted := True,
                      output := output m @ [''Environment ready.'']\<rparr>;
               (rerr, s1) = RestoreEnvironment env (currentQuestIdx m1) s;
               m2 = (case rerr of
                       Some e \<Rightarrow> m1\<lparr>output := output m1 @ [''Warning: State restoration issue: '' @ e]\<rparr>
                     | None \<Rightarrow> m1);
               resumed = (if currentQuestIdx m2 > 0 then
                            (case index (quests m2) (currentQuestIdx m2) of
                               Inl p \<Rightarrow> Inl p
                             | Inr q \<Rightarrow>
                                 Inr (m2\<lparr>output := output m2 @
                                        [''Resuming from Quest '' @ Itoa (ID q) @ ''...'']\<rparr>))
                          else Inr m2)
           in case resumed of
                Inl p \<Rightarrow> (Inl p, s1)
              | Inr m3 \<Rightarrow>
                  (let m4 = m3\<lparr>output := output m3 @ [[]]\<rparr>
                   in if length (quests m4) > 0 then (startQuest m4 (currentQuestIdx m4), s1)
                      else (Inr (m4, CmdNil), s1))))"

definition display_lines :: "string \<Rightarrow> string list" where
  "display_lines out =
     (let lines = Split out (CHR 0x0A)
      in if length lines > 0 \<and> last lines = [] then butlast lines else lines)"

definition Update_commandResult :: "Model \<Rightarrow> string \<Rightarrow> string option \<Rightarrow> panic + Model \<times> Cmd" where
  "Update_commandResult m out err =
     (let m1 = (case err of
                  Some e \<Rightarrow> m\<lparr>output := output m @ [''Error: '' @ e]\<rparr>
                | None \<Rightarrow> m\<lparr>output := output m @ display_lines out, lastOutput := out\<rparr>)
      in case checkWinCondition m1 of
           Inl p \<Rightarrow> Inl p
         | Inr c \<Rightarrow> Inr (m1, c))"

definition displayPath :: "string \<Rightarrow> string" where
  "displayPath d = (if HasPrefix d ''/home/player'' then ''~'' @ drop 12 d else d)"

definition history_lines :: "string list \<Rightarrow> string list" where
  "history_lines hs = map (\<lambda>(i, h). Itoa5 (int i + 1) @ ''  '' @ h) (enumerate 0 hs)"

definition Update_enter :: "Model \<Rightarrow> string \<Rightarrow> Model \<times> Cmd" where
  "Update_enter m cur =
     (let cmdText = TrimSpace (input m);
          m1 = m\<lparr>output := output m @ [''player@goblin:'' @ displayPath cur @ ''$ '' @ cmdText],
                 input := []\<rparr>;
          m2 = (if cmdText \<noteq> [] then
                  m1\<lparr>history := history m1 @ [cmdText],
                     historyIdx := int (length (history m1 @ [cmdText]))\<rparr>
                else m1)
      in if cmdText = ''exit'' then
           (m2\<lparr>output := output m2 @ [''Shutting down simulation...'']\<rparr>, ExitSequenceCmd)
         else if cmdText = [] then (m2, CmdNil)
         else if cmdText = ''help'' then
           (m2\<lparr>output := output m2 @
               [''To quit the game, type '' @ [CHR 0x27] @ ''exit'' @ [CHR 0x27] @ ''.'']\<rparr>, CmdNil)
         else if cmdText = ''history'' then
           (m2\<lparr>output := output m2 @ history_lines (history m2)\<rparr>, CmdNil)
         else (m2, ExecCmd cmdText))"

definition Update_key ::
  "'w env \<Rightarrow> Model \<Rightarrow> KeyType \<Rightarrow> string \<Rightarrow> 'w state \<Rightarrow> (panic + Model \<times> Cmd) \<times> 'w state" where
  "Update_key env m t runes s =
     (if \<not> ready m then
        (if t = KeyCtrlC \<or> t = KeyEsc then (Inr (m, Quit), s) else (Inr (m, CmdNil), s))
      else if t = KeyCtrlC \<or> t = KeyEsc then (Inr (m, Quit), snd (StopContainer env s))
      else if t = KeyEnter then (Inr (Update_enter m (CurrentDir (manager s))), s)
      else if t = KeyUp then
        (if historyIdx m > 0 then
           (let m1 = m\<lparr>historyIdx := historyIdx m - 1\<rparr>
            in if historyIdx m1 \<ge> 0 \<and> historyIdx m1 < int (length (history m1))
               then (Inr (m1\<lparr>input := history m1 ! nat (historyIdx m1)\<rparr>, CmdNil), s)
               else (Inr (m1, CmdNil), s))
         else (Inr (m, CmdNil), s))
      else if t = KeyDown then
        (if historyIdx m < int (length (history m)) then
           (let m1 = m\<lparr>historyIdx := historyIdx m + 1\<rparr>
            in if historyIdx m1 = int (length (history m1)) then (Inr (m1\<lparr>input := []\<rparr>, CmdNil), s)
               else (case index (history m1) (historyIdx m1) of
                       Inl p \<Rightarrow> (Inl p, s)
                     | Inr h \<Rightarrow> (Inr (m1\<lparr>input := h\<rparr>, CmdNil), s)))
         else (Inr (m, CmdNil), s))
      else if t = KeyBackspace then
        (if length (input m) > 0 then (Inr (m\<lparr>input := butlast (input m)\<rparr>, CmdNil), s)
         else (Inr (m, CmdNil), s))
      else if t = KeyRunes then (Inr (m\<lparr>input := input m @ runes\<rparr>, CmdNil), s)
      else if t = KeySpace then (Inr (m\<lparr>input := input m @ '' ''\<rparr>, CmdNil), s)
      else (Inr (m, CmdNil), s))"

definition complete_lines :: "'w env \<Rightarrow> Quest \<Rightarrow> string list" where
  "complete_lines env q =
     [[], headerStyle_Render env (''>>> QUEST COMPLETE! +'' @ Itoa (XPReward q) @ '' XP <<<'')]
     @ Split (SuccessText q) (CHR 0x0A) @ [[]]"

definition Update_questCheck ::
  "'w env \<Rightarrow> Model \<Rightarrow> int \<Rightarrow> bool \<Rightarrow> 'w state \<Rightarrow> (panic + Model \<times> Cmd) \<times> 'w state" where
  "Update_questCheck env m idx passed s =
     (if passed then
        (case index (quests m) idx of
           Inl p \<Rightarrow> (Inl p, s)
         | Inr completedQuest \<Rightarrow>
             (let m1 = m\<lparr>output := output m @ complete_lines env completedQuest\<rparr>;
                  nextIdx = idx + 1;
                  (_, w) = save_state env \<lparr>CurrentQuestID = nextIdx, MsgLog = []\<rparr> (world s);
                  s1 = s\<lparr>world := w\<rparr>
              in if nextIdx < int (length (quests m1)) then
                   (case index (quests m1) nextIdx of
                      Inl p \<Rightarrow> (Inl p, s1)
                    | Inr q \<Rightarrow>
                        (Inr (m1\<lparr>glitchText := ''(Next: '' @ Title q @ '')'' @ [CHR 0x0A] @ IntroText q,
                                 currentQuestIdx := nextIdx,
                                 output := output m1 @ [quest_header q]\<rparr>,
                              performQuestSetup q), s1))
                 else (Inr (m1\<lparr>glitchText := glitch_done, currentQuestIdx := nextIdx\<rparr>, CmdNil), s1)))
      else (Inr (m, CmdNil), s))"

fun Update :: "'w env \<Rightarrow> Model \<Rightarrow> Msg \<Rightarrow> 'w state \<Rightarrow> (panic + Model \<times> Cmd) \<times> 'w state" where
  "Update env m (WindowSizeMsg w h) s =
     (Inr (m\<lparr>width := w, height := h, viewportReady := True\<rparr>, CmdNil), s)"
| "Update env m (containerReadyMsg err) s = Update_containerReady env m err s"
| "Update env m (commandResultMsg out err) s = (Update_commandResult m out err, s)"
| "Update env m (KeyMsg t runes) s = Update_key env m t runes s"
| "Update env m (questCheckMsg idx passed) s = Update_questCheck env m idx passed s"
| "Update env m OtherMsg s = (Inr (m, CmdNil), s)"

text \<open>
  One user command handled in order, as the framework does when no other message comes
  in between: the closure of the \<open>Enter\<close> key runs \<open>ExecuteCommand\<close>, its result goes
  to \<open>Update\<close>, the check \<open>Update\<close> returns is run and its verdict goes to \<open>Update\<close>.
\<close>

definition command_cycle ::
  "'w env \<Rightarrow> Model \<Rightarrow> string \<Rightarrow> 'w state \<Rightarrow> (panic + Model \<times> Cmd) \<times> 'w state" where
  "command_cycle env m cmd s =
     (case ExecuteCommand env cmd s of
        ((out, err), s1) \<Rightarrow>
          (case Update env m (commandResultMsg out err) s1 of
             (Inr (m1, CheckCmd q lastOut idx), s2) \<Rightarrow>
               (case run_check env q lastOut idx s2 of (msg, s3) \<Rightarrow> Update env m1 msg s3)
           | res \<Rightarrow> res))"

text \<open>\<open>main\<close>: the index the game starts from, from the save file and the \<open>-quest\<close> flag.\<close>

definition startQuestIdx :: "'w env \<Rightarrow> int \<Rightarrow> 'w \<Rightarrow> int" where
  "startQuestIdx env questFlag w =
     (let idx0 = (case load_state env w of Inr st \<Rightarrow> CurrentQuestID st | Inl e \<Rightarrow> 0)
      in if questFlag > 0 then questFlag - 1 else idx0)"

section \<open>Concrete environments\<close>

text \<open>
  \<open>fixed_env r\<close> is a runtime every call of which ends with the result \<open>r\<close> and changes
  nothing; it has no save file. \<open>game_state w\<close> is the state at the start of the
  program on a host with \<open>docker\<close>, as \<open>main\<close> builds it.
\<close>

definition fixed_env :: "proc_result \<Rightarrow> 'w env" where
  "fixed_env r =
     \<lparr>run_proc = (\<lambda>t name args w. (r, w)),
      save_state = (\<lambda>g w. (None, w)),
      load_state = (\<lambda>w. Inl ''open save.json: no such file or directory''),
      headerStyle_Render = (\<lambda>x. x)\<rparr>"

definition game_manager :: Manager where
  "game_manager =
     \<lparr>ImageName = ''goblin-terminal:latest'', ContainerName = ''goblin-game'',
      GatewayName = ''goblin-game_gateway'', NetworkName = ''goblin_net'',
      Runtime = ''docker'', CurrentDir = ''/home/player''\<rparr>"

definition game_state :: "'w \<Rightarrow> 'w state" where
  "game_state w = \<lparr>manager = game_manager, world = w, calls = []\<rparr>"

definition printed :: "string \<Rightarrow> proc_result" where
  "printed out = \<lparr>run_err = None, written = [(Stdout, out)]\<rparr>"

definition failed :: "string \<Rightarrow> string \<Rightarrow> proc_result" where
  "failed e msg = \<lparr>run_err = Some e, written = [(Stderr, msg)]\<rparr>"

text \<open>
  A small container and host: whether the user \<open>glitch\<close> exists and is in the group
  \<open>sudo\<close>, the owner and the mode of \<open>/home/player/.safe_house\<close>, and the save file.
  \<open>box_run\<close> answers the commands of \<open>RestoreEnvironment\<close> on it as the tools of the
  image do (\<open>useradd\<close> refuses a user that exists, \<open>id\<close>, \<open>groups\<close>, \<open>usermod\<close> and
  \<open>chown\<close> one that does not); every other command succeeds and prints nothing.
\<close>

record box =
  glitch_exists :: bool
  glitch_sudo :: bool
  safe_house_owner :: string
  safe_house_mode :: string
  save_file :: "GameState option"

definition box_run :: "nat option \<Rightarrow> string \<Rightarrow> string list \<Rightarrow> box \<Rightarrow> proc_result \<times> box" where
  "box_run t name args b =
     (let c = (if args = [] then [] else last args) in
      if c = ''id glitch'' then
        (if glitch_exists b then (printed (''uid=1001(glitch) gid=1001(glitch)'' @ [CHR 0x0A]), b)
         else (failed ''exit status 1'' ''id: glitch: no such user'', b))
      else if c = ''useradd glitch'' then
        (if glitch_exists b then (failed ''exit status 9'' ''useradd: user glitch already exists'', b)
         else (printed [], b\<lparr>glitch_exists := True\<rparr>))
      else if c = ''groups glitch'' then
        (if glitch_exists b then
           (printed ((if glitch_sudo b then ''glitch : glitch sudo'' else ''glitch : glitch'')
                     @ [CHR 0x0A]), b)
         else (failed ''exit status 1'' ''groups: glitch: no such user'', b))
      else if c = ''usermod -aG sudo glitch'' then
        (if glitch_exists b then (printed [], b\<lparr>glitch_sudo := True\<rparr>)
         else (failed ''exit status 6'' ''usermod: user glitch does not exist'', b))
      else if c = ''chown glitch /home/player/.safe_house'' then
        (if glitch_exists b then (printed [], b\<lparr>safe_house_owner := ''glitch''\<rparr>)
         else (failed ''exit status 1'' ''chown: invalid user: glitch'', b))
      else if c = ''chmod 700 /home/player/.safe_house'' then
        (printed [], b\<lparr>safe_house_mode := ''700''\<rparr>)
      else (printed [], b))"

definition box_env :: "box env" where
  "box_env =
     \<lparr>run_proc = box_run,
      save_state = (\<lambda>g b. (None, b\<lparr>save_file := Some g\<rparr>)),
      load_state = (\<lambda>b. case save_file b of
                            None \<Rightarrow> Inl ''open save.json: no such file or directory''
                          | Some g \<Rightarrow> Inr g),
      headerStyle_Render = (\<lambda>x. x)\<rparr>"

text \<open>A container just created from the image: no user \<open>glitch\<close>, the directory as made.\<close>

definition fresh_box :: box where
  "fresh_box =
     \<lparr>glitch_exists = False, glitch_sudo = False, safe_house_owner = ''player'',
      safe_house_mode = ''755'', save_file = None\<rparr>"

text \<open>The same container on a host whose save file holds the quest index \<open>p\<close>.\<close>

definition saved_box :: "int \<Rightarrow> box" where
  "saved_box p = fresh_box\<lparr>save_file := Some \<lparr>CurrentQuestID = p, MsgLog = []\<rparr>\<rparr>"

text \<open>
  \<open>shell_env f\<close> is a runtime that answers by the shell command alone (the last
  argument of the call) and changes nothing. \<open>hut_session\<close> is a container in which
  \<open>mkdir hut && echo hello\<close> prints \<open>hello\<close>, the directory \<open>hut\<close> then exists, and any
  other command is not found.
\<close>

definition shell_env :: "(string \<Rightarrow> proc_result) \<Rightarrow> 'w env" where
  "shell_env f =
     \<lparr>run_proc = (\<lambda>t name args w. (f (if args = [] then [] else last args), w)),
      save_state = (\<lambda>g w. (None, w)),
      load_state = (\<lambda>w. Inl ''open save.json: no such file or directory''),
      headerStyle_Render = (\<lambda>x. x)\<rparr>"

definition hut_session :: "string \<Rightarrow> proc_result" where
  "hut_session c =
     (if c = ''mkdir hut && echo hello'' then printed (''hello'' @ [CHR 0x0A])
      else if c = ''test -d hut && echo yes'' then printed (''yes'' @ [CHR 0x0A])
      else failed ''exit status 127'' (''bash: line 1: frobnicate: command not found'' @ [CHR 0x0A]))"

text \<open>\<open>grep -c\<close> on a file without a match: it prints the count 0 and ends with status 1.\<close>

definition counted_none :: proc_result where
  "counted_none = \<lparr>run_err = Some ''exit status 1'', written = [(Stdout, ''0'' @ [CHR 0x0A])]\<rparr>"

text \<open>Quests of the kinds the examples need.\<close>

definition quest :: "int \<Rightarrow> WinCondition \<Rightarrow> Quest" where
  "quest i wc =
     \<lparr>ID = i, Title = ''Quest'', IntroText = ''Intro'', Objective = ''Objective'',
      WinCondition = wc, SuccessText = ''Done'', XPReward = 10, Environment = ''local'',
      SetupCommands = []\<rparr>"

definition quest_hut :: Quest where
  "quest_hut = quest 1 \<lparr>Type = DirExists, Target = ''hut'', Content = [], Command = [],
                         Expected = []\<rparr>"

definition quest_read :: Quest where
  "quest_read = quest 2 \<lparr>Type = UserOutputContains, Target = [], Content = [], Command = [],
                          Expected = ''hello''\<rparr>"

definition quest_count :: Quest where
  "quest_count = quest 3 \<lparr>Type = CommandOut, Target = [], Content = [],
                           Command = ''grep -c goblin notes.txt'', Expected = ''0''\<rparr>"

definition quest_goto :: "string \<Rightarrow> Quest" where
  "quest_goto target = quest 4 \<lparr>Type = CurrentDirMatch, Target = target, Content = [],
                                 Command = [], Expected = []\<rparr>"

definition two_quests :: "Quest list" where
  "two_quests = [quest_hut, quest_read]"

definition three_quests :: "Quest list" where
  "three_quests = [quest_hut, quest_read, quest_count]"

text \<open>Fourteen quests with the identifiers 1 to 14, as the quest file numbers them.\<close>

definition numbered_quests :: "Quest list" where
  "numbered_quests = map (\<lambda>i. quest_hut\<lparr>ID := i\<rparr>) [1..14]"

text \<open>
  \<open>echo_session\<close> is a container in which \<open>mkdir hut\<close> prints nothing, \<open>echo hello\<close>
  prints \<open>hello\<close>, the directory \<open>hut\<close> exists, and any other command is not found.
\<close>

definition echo_session :: "string \<Rightarrow> proc_result" where
  "echo_session c =
     (if c = ''mkdir hut'' then printed []
      else if c = ''echo hello'' then printed (''hello'' @ [CHR 0x0A])
      else if c = ''test -d hut && echo yes'' then printed (''yes'' @ [CHR 0x0A])
      else failed ''exit status 127'' (''bash: line 1: command not found'' @ [CHR 0x0A]))"

section \<open>What the claims speak of\<close>

text \<open>The state with another tracked directory, everything else the same.\<close>

definition chdir :: "string \<Rightarrow> 'w state \<Rightarrow> 'w state" where
  "chdir d s = s\<lparr>manager := (manager s)\<lparr>CurrentDir := d\<rparr>\<rparr>"

text \<open>The result of the probe that \<open>ExecuteCommand\<close> runs for a directory change.\<close>

definition cd_result :: "'w env \<Rightarrow> string \<Rightarrow> 'w state \<Rightarrow> proc_result" where
  "cd_result env command s =
     fst (run_proc env None (Runtime (manager s))
            (cd_args (manager s) (TrimSpace command)) (world s))"

text \<open>
  The runs of \<open>ExecuteValidation\<close> and \<open>RunAsRoot\<close> on a world, and the calls made
  between two states.
\<close>

definition validation_run :: "'w env \<Rightarrow> Manager \<Rightarrow> string \<Rightarrow> 'w \<Rightarrow> proc_result \<times> 'w" where
  "validation_run env m command w = run_proc env None (Runtime m) (validation_args m command) w"

definition root_run :: "'w env \<Rightarrow> Manager \<Rightarrow> string \<Rightarrow> 'w \<Rightarrow> proc_result \<times> 'w" where
  "root_run env m command w = run_proc env None (Runtime m) (root_args m command) w"

definition new_calls :: "'w state \<Rightarrow> 'w state \<Rightarrow> string list list" where
  "new_calls s s' = drop (length (calls s)) (calls s')"

definition root_call :: "Manager \<Rightarrow> string \<Rightarrow> string list" where
  "root_call m command = Runtime m # root_args m command"

definition validation_call :: "Manager \<Rightarrow> string \<Rightarrow> string list" where
  "validation_call m command = Runtime m # validation_args m command"

text \<open>
  The wording of the specification for \<open>CurrentDirMatches\<close>: the target made absolute
  against the player's home, and the trailing separators stripped from both sides.
\<close>

definition strip_trailing_separators :: "string \<Rightarrow> string" where
  "strip_trailing_separators p = rev (dropWhile (\<lambda>c. c = CHR ''/'') (rev p))"

definition spec_currentDirMatches :: "string \<Rightarrow> string \<Rightarrow> bool" where
  "spec_currentDirMatches target cur =
     (strip_trailing_separators
        (if HasPrefix target ''/'' then target else ''/home/player/'' @ target) =
      strip_trailing_separators cur)"

text \<open>
  The probe of a quest whose kind looks into the container: the shell command and the
  text its trimmed output is compared with.
\<close>

definition probe_of :: "Quest \<Rightarrow> (string \<times> string) option" where
  "probe_of q =
     (let wc = WinCondition q in
      if Type wc = CommandOut then Some (Command wc, Expected wc)
      else if Type wc = DirExists then Some (dir_probe (Target wc), ''yes'')
      else if Type wc = FileExists then Some (file_probe (Target wc), ''yes'')
      else if Type wc = FileContains then Some (grep_probe (Content wc) (Target wc), ''yes'')
      else None)"

text \<open>
  What \<open>RestoreEnvironment\<close> looks at in a world: whether \<open>id glitch\<close> succeeds, and
  whether \<open>groups glitch\<close> lists \<open>sudo\<close>; and the world a command leaves.
\<close>

definition user_ok :: "'w env \<Rightarrow> Manager \<Rightarrow> 'w \<Rightarrow> bool" where
  "user_ok env m w = (run_err (fst (root_run env m ''id glitch'' w)) = None)"

definition sudo_ok :: "'w env \<Rightarrow> Manager \<Rightarrow> 'w \<Rightarrow> bool" where
  "sudo_ok env m w =
     Contains (stdout_of (fst (validation_run env m ''groups glitch'' w))) ''sudo''"

definition after_root :: "'w env \<Rightarrow> Manager \<Rightarrow> string \<Rightarrow> 'w \<Rightarrow> 'w" where
  "after_root env m c w = snd (root_run env m c w)"

definition after_validation :: "'w env \<Rightarrow> Manager \<Rightarrow> string \<Rightarrow> 'w \<Rightarrow> 'w" where
  "after_validation env m c w = snd (validation_run env m c w)"

text \<open>
  What is assumed of the tools in the container when two runs of \<open>RestoreEnvironment\<close>
  are compared. The three probes change nothing. A \<open>useradd\<close> that succeeds makes
  \<open>id glitch\<close> succeed, a \<open>usermod\<close> that succeeds makes \<open>groups glitch\<close> list
  \<open>sudo\<close>, and the commands that \<open>RestoreEnvironment\<close> runs afterwards keep both.
  \<open>chown\<close> and \<open>chmod\<close> on the directory do nothing the second time, in either order.
\<close>

definition container_assumptions :: "'w env \<Rightarrow> Manager \<Rightarrow> bool" where
  "container_assumptions env m \<longleftrightarrow>
     (\<forall>w. after_root env m ''id glitch'' w = w) \<and>
     (\<forall>w. after_validation env m ''groups glitch'' w = w) \<and>
     (\<forall>w. after_validation env m ''test -d /home/player/.safe_house'' w = w) \<and>
     (\<forall>w. run_err (fst (root_run env m ''useradd glitch'' w)) = None \<longrightarrow>
          user_ok env m (after_root env m ''useradd glitch'' w)) \<and>
     (\<forall>w. run_err (fst (root_run env m ''usermod -aG sudo glitch'' w)) = None \<longrightarrow>
          sudo_ok env m (after_root env m ''usermod -aG sudo glitch'' w)) \<and>
     (\<forall>w. user_ok env m w \<longrightarrow>
          user_ok env m (after_root env m ''usermod -aG sudo glitch'' w) \<and>
          user_ok env m (after_root env m ''chown glitch /home/player/.safe_house'' w) \<and>
          user_ok env m (after_root env m ''chmod 700 /home/player/.safe_house'' w)) \<and>
     (\<forall>w. sudo_ok env m w \<longrightarrow>
          sudo_ok env m (after_root env m ''chown glitch /home/player/.safe_house'' w) \<and>
          sudo_ok env m (after_root env m ''chmod 700 /home/player/.safe_house'' w)) \<and>
     (\<forall>w. after_root env m ''chown glitch /home/player/.safe_house''
            (after_root env m ''chown glitch /home/player/.safe_house'' w) =
          after_root env m ''chown glitch /home/player/.safe_house'' w) \<and>
     (\<forall>w. after_root env m ''chmod 700 /home/player/.safe_house''
            (after_root env m ''chmod 700 /home/player/.safe_house'' w) =
          after_root env m ''chmod 700 /home/player/.safe_house'' w) \<and>
     (\<forall>w. after_root env m ''chown glitch /home/player/.safe_house''
            (after_root env m ''chmod 700 /home/player/.safe_house'' w) =
          after_root env m ''chmod 700 /home/player/.safe_house''
            (after_root env m ''chown glitch /home/player/.safe_house'' w))"

section \<open>Basic facts\<close>

lemma ExecuteValidation_eq:
  "ExecuteValidation env c s =
     ((stdout_of (fst (validation_run env (manager s) c (world s))), None),
      s\<lparr>world := snd (validation_run env (manager s) c (world s)),
        calls := calls s @ [validation_call (manager s) c]\<rparr>)"
  by (simp add: ExecuteValidation_def exec_Run_def validation_run_def validation_call_def
      split: prod.splits option.splits)

lemma RunAsRoot_eq:
  "RunAsRoot env c s =
     (case run_err (fst (root_run env (manager s) c (world s))) of
        None \<Rightarrow> None
      | Some e \<Rightarrow> Some (e @ '': '' @ combined_of (fst (root_run env (manager s) c (world s)))),
      s\<lparr>world := snd (root_run env (manager s) c (world s)),
        calls := calls s @ [root_call (manager s) c]\<rparr>)"
  by (simp add: RunAsRoot_def exec_Run_def root_run_def root_call_def
      split: prod.splits option.splits)

lemma probe_passed_eq:
  "probe_passed env c e s =
     (TrimSpace (stdout_of (fst (validation_run env (manager s) c (world s)))) = e,
      s\<lparr>world := snd (validation_run env (manager s) c (world s)),
        calls := calls s @ [validation_call (manager s) c]\<rparr>)"
  by (simp add: probe_passed_def ExecuteValidation_eq)

lemma validation_chdir:
  "validation_run env (m\<lparr>CurrentDir := d\<rparr>) c w = validation_run env m c w"
  "validation_call (m\<lparr>CurrentDir := d\<rparr>) c = validation_call m c"
  by (simp_all add: validation_run_def validation_call_def validation_args_def)

lemma game_manager_NewManager:
  "NewManager False True ''goblin-terminal:latest'' ''goblin-game'' = Inr game_manager"
  by (simp add: NewManager_def game_manager_def)

section \<open>Directory changes\<close>

text \<open>
  C1, as the code has it. For a directory change (the trimmed command is \<open>cd\<close> or starts
  with \<open>cd\<close> and a space) the returned output is always empty. When the probe succeeds
  no error is returned, and the tracked directory becomes the probe's standard output
  with the white space around it trimmed if that is not empty; if the probe printed
  nothing the tracked directory stays as it was. When the probe fails the tracked
  directory stays as it was and the error is the probe's standard error, or
  \<open>No such file or directory\<close> if that is empty.
\<close>

theorem cd_tracks_probe:
  assumes "is_cd (TrimSpace command)"
  shows "fst (fst (ExecuteCommand env command s)) = [] \<and>
         (run_err (cd_result env command s) = None \<longrightarrow>
            snd (fst (ExecuteCommand env command s)) = None \<and>
            CurrentDir (manager (snd (ExecuteCommand env command s))) =
              (if TrimSpace (stdout_of (cd_result env command s)) \<noteq> []
               then TrimSpace (stdout_of (cd_result env command s))
               else CurrentDir (manager s))) \<and>
         (run_err (cd_result env command s) \<noteq> None \<longrightarrow>
            snd (fst (ExecuteCommand env command s)) =
              Some (if stderr_of (cd_result env command s) = []
                    then ''No such file or directory''
                    else stderr_of (cd_result env command s)) \<and>
            CurrentDir (manager (snd (ExecuteCommand env command s))) =
              CurrentDir (manager s))"
  using assms
  by (auto simp add: ExecuteCommand_def cd_result_def exec_Run_def Let_def
           split: prod.splits option.splits)

text \<open>
  The theorem at \<open>cd hut\<close> with a probe that prints \<open>/home/player/hut\<close>, and at
  \<open>cd cave\<close> with a probe that fails without a message.
\<close>

theorem cd_tracks_probe_witness:
  "is_cd (TrimSpace ''cd hut'') \<and>
   run_err (cd_result (fixed_env (printed (''/home/player/hut'' @ [CHR 0x0A])))
              ''cd hut'' (game_state ())) = None \<and>
   fst (ExecuteCommand (fixed_env (printed (''/home/player/hut'' @ [CHR 0x0A])))
          ''cd hut'' (game_state ())) = ([], None) \<and>
   CurrentDir (manager (snd (ExecuteCommand
       (fixed_env (printed (''/home/player/hut'' @ [CHR 0x0A])))
       ''cd hut'' (game_state ())))) = ''/home/player/hut'' \<and>
   is_cd (TrimSpace ''cd cave'') \<and>
   run_err (cd_result (fixed_env (failed ''exit status 1'' [])) ''cd cave'' (game_state ()))
     \<noteq> None \<and>
   fst (ExecuteCommand (fixed_env (failed ''exit status 1'' [])) ''cd cave'' (game_state ())) =
     ([], Some ''No such file or directory'') \<and>
   CurrentDir (manager (snd (ExecuteCommand (fixed_env (failed ''exit status 1'' []))
       ''cd cave'' (game_state ())))) = ''/home/player''"
proof -
  let ?e1 = "fixed_env (printed (''/home/player/hut'' @ [CHR 0x0A])) :: unit env"
  let ?e2 = "fixed_env (failed ''exit status 1'' []) :: unit env"
  have h1: "is_cd (TrimSpace ''cd hut'')" by code_simp
  have r1: "cd_result ?e1 ''cd hut'' (game_state ()) = printed (''/home/player/hut'' @ [CHR 0x0A])"
    by (simp add: cd_result_def fixed_env_def)
  have t1: "TrimSpace (stdout_of (printed (''/home/player/hut'' @ [CHR 0x0A]))) = ''/home/player/hut''"
    by code_simp
  have e1: "run_err (printed (''/home/player/hut'' @ [CHR 0x0A])) = None"
    by (simp add: printed_def)
  have h2: "is_cd (TrimSpace ''cd cave'')" by code_simp
  have r2: "cd_result ?e2 ''cd cave'' (game_state ()) = failed ''exit status 1'' []"
    by (simp add: cd_result_def fixed_env_def)
  have e2: "run_err (failed ''exit status 1'' []) = Some ''exit status 1''"
    and t2: "stderr_of (failed ''exit status 1'' []) = []"
    by (simp_all add: failed_def stderr_of_def)
  have d: "CurrentDir (manager (game_state ())) = ''/home/player''"
    by (simp add: game_state_def game_manager_def)
  have a: "fst (ExecuteCommand ?e1 ''cd hut'' (game_state ())) = ([], None) \<and>
           CurrentDir (manager (snd (ExecuteCommand ?e1 ''cd hut'' (game_state ())))) =
             ''/home/player/hut''"
    using cd_tracks_probe [OF h1, of ?e1 "game_state ()"] unfolding r1 t1
    using e1 by (simp add: prod_eq_iff)
  have b: "fst (ExecuteCommand ?e2 ''cd cave'' (game_state ())) =
             ([], Some ''No such file or directory'') \<and>
           CurrentDir (manager (snd (ExecuteCommand ?e2 ''cd cave'' (game_state ())))) =
             ''/home/player''"
    using cd_tracks_probe [OF h2, of ?e2 "game_state ()"] unfolding r2 t2 d
    using e2 by (simp add: prod_eq_iff)
  show ?thesis using h1 h2 a b r1 r2 e1 e2 by simp
qed

text \<open>
  C1 as it is stated fails when a probe succeeds without printing a path. The user
  types \<open>cd /tmp #\<close>: the probe is \<open>cd /home/player && cd /tmp # && pwd\<close>, the shell
  ends with status 0 and prints nothing, and the tracked directory is still
  \<open>/home/player\<close>, not what the probe printed.
\<close>

theorem cd_silent_probe_counterexample:
  "is_cd (TrimSpace ''cd /tmp #'') \<and>
   last (cd_args (manager (game_state ())) (TrimSpace ''cd /tmp #'')) =
     ''cd /home/player && cd /tmp # && pwd'' \<and>
   run_err (cd_result (fixed_env (printed [])) ''cd /tmp #'' (game_state ())) = None \<and>
   CurrentDir (manager (snd (ExecuteCommand (fixed_env (printed [])) ''cd /tmp #''
       (game_state ())))) \<noteq>
     TrimSpace (stdout_of (cd_result (fixed_env (printed [])) ''cd /tmp #'' (game_state ()))) \<and>
   CurrentDir (manager (snd (ExecuteCommand (fixed_env (printed [])) ''cd /tmp #''
       (game_state ())))) = ''/home/player''"
  by code_simp

text \<open>
  C10. A command whose trimmed text is \<open>cd\<close> is a directory change with the target
  \<open>/home/player\<close>: the one call it makes is the probe
  \<open>cd D && cd /home/player && pwd\<close> from the tracked directory \<open>D\<close>. When the probe
  succeeds, the output is empty and no error is returned, and when it printed
  \<open>/home/player\<close> that is the new tracked directory.
\<close>

theorem bare_cd_goes_home:
  assumes "TrimSpace command = ''cd''"
  shows "is_cd (TrimSpace command) \<and>
         cd_target (TrimSpace command) = ''/home/player'' \<and>
         new_calls s (snd (ExecuteCommand env command s)) =
           [[Runtime (manager s), ''exec'', ContainerName (manager s), ''bash'', ''-c'',
             ''cd '' @ CurrentDir (manager s) @ '' && cd /home/player && pwd'']] \<and>
         (run_err (cd_result env command s) = None \<longrightarrow>
            fst (ExecuteCommand env command s) = ([], None) \<and>
            (TrimSpace (stdout_of (cd_result env command s)) = ''/home/player'' \<longrightarrow>
               CurrentDir (manager (snd (ExecuteCommand env command s))) = ''/home/player''))"
  using assms
  by (auto simp add: ExecuteCommand_def cd_result_def exec_Run_def Let_def is_cd_def
        cd_target_def cd_args_def cd_probe_def new_calls_def
      split: prod.splits option.splits)

text \<open>The theorem at \<open>cd\<close> typed in \<open>/home/player/hut\<close>, the probe printing the home.\<close>

theorem bare_cd_goes_home_witness:
  "TrimSpace ''cd'' = ''cd'' \<and>
   run_err (cd_result (fixed_env (printed (''/home/player'' @ [CHR 0x0A]))) ''cd''
              (chdir ''/home/player/hut'' (game_state ()))) = None \<and>
   TrimSpace (stdout_of (cd_result (fixed_env (printed (''/home/player'' @ [CHR 0x0A]))) ''cd''
              (chdir ''/home/player/hut'' (game_state ())))) = ''/home/player'' \<and>
   new_calls (chdir ''/home/player/hut'' (game_state ()))
     (snd (ExecuteCommand (fixed_env (printed (''/home/player'' @ [CHR 0x0A]))) ''cd''
             (chdir ''/home/player/hut'' (game_state ())))) =
     [[''docker'', ''exec'', ''goblin-game'', ''bash'', ''-c'',
       ''cd /home/player/hut && cd /home/player && pwd'']] \<and>
   fst (ExecuteCommand (fixed_env (printed (''/home/player'' @ [CHR 0x0A]))) ''cd''
          (chdir ''/home/player/hut'' (game_state ()))) = ([], None) \<and>
   CurrentDir (manager (snd (ExecuteCommand (fixed_env (printed (''/home/player'' @ [CHR 0x0A])))
          ''cd'' (chdir ''/home/player/hut'' (game_state ()))))) = ''/home/player''"
proof -
  let ?e = "fixed_env (printed (''/home/player'' @ [CHR 0x0A])) :: unit env"
  let ?s = "chdir ''/home/player/hut'' (game_state ())"
  have h: "TrimSpace ''cd'' = ''cd''" by code_simp
  have r: "run_err (cd_result ?e ''cd'' ?s) = None"
    by (simp add: cd_result_def fixed_env_def printed_def)
  have t: "TrimSpace (stdout_of (cd_result ?e ''cd'' ?s)) = ''/home/player''"
    by code_simp
  have m: "manager ?s = game_manager\<lparr>CurrentDir := ''/home/player/hut''\<rparr>"
    by (simp add: chdir_def game_state_def)
  show ?thesis
    using bare_cd_goes_home [OF h, of ?s ?e] h r t
    by (simp add: m game_manager_def)
qed

section \<open>The evaluation of win conditions\<close>

text \<open>
  C2. For a quest whose kind is none of \<open>CurrentDirMatch\<close>, \<open>UserOutputMatch\<close> and
  \<open>UserOutputContains\<close>, the evaluation in a state that differs only in the tracked
  directory gives the same verdict and leaves the same world; and every call the
  evaluation makes runs the shell with \<open>-w /home/player\<close>.
\<close>

theorem verdict_ignores_tracked_directory:
  assumes "Type (WinCondition q) \<noteq> CurrentDirMatch"
      and "Type (WinCondition q) \<noteq> UserOutputMatch"
      and "Type (WinCondition q) \<noteq> UserOutputContains"
  shows "fst (run_check env q lastOut idx (chdir d s)) = fst (run_check env q lastOut idx s) \<and>
         world (snd (run_check env q lastOut idx (chdir d s))) =
           world (snd (run_check env q lastOut idx s)) \<and>
         (\<forall>c \<in> set (new_calls s (snd (run_check env q lastOut idx s))).
            take 4 c = [Runtime (manager s), ''exec'', ''-w'', ''/home/player''])"
  using assms
  by (simp add: run_check_def winCheck_def probe_passed_eq chdir_def Let_def validation_chdir
        new_calls_def validation_call_def validation_args_def)

text \<open>
  The theorem at the quest that asks for the directory \<open>hut\<close>, in a container whose
  probe prints \<open>yes\<close>, evaluated from the home and from \<open>/tmp\<close>.
\<close>

theorem verdict_ignores_tracked_directory_witness:
  "Type (WinCondition quest_hut) \<noteq> CurrentDirMatch \<and>
   Type (WinCondition quest_hut) \<noteq> UserOutputMatch \<and>
   Type (WinCondition quest_hut) \<noteq> UserOutputContains \<and>
   fst (run_check (shell_env hut_session) quest_hut [] 0 (chdir ''/tmp'' (game_state ()))) =
     questCheckMsg 0 True \<and>
   fst (run_check (shell_env hut_session) quest_hut [] 0 (game_state ())) = questCheckMsg 0 True \<and>
   new_calls (game_state ()) (snd (run_check (shell_env hut_session) quest_hut [] 0 (game_state ()))) =
     [[''docker'', ''exec'', ''-w'', ''/home/player'', ''goblin-game'', ''bash'', ''-c'',
       ''test -d hut && echo yes'']]"
proof -
  let ?e = "shell_env hut_session :: unit env"
  have k: "Type (WinCondition quest_hut) \<noteq> CurrentDirMatch"
          "Type (WinCondition quest_hut) \<noteq> UserOutputMatch"
          "Type (WinCondition quest_hut) \<noteq> UserOutputContains"
    by (simp_all add: quest_hut_def quest_def DirExists_def CurrentDirMatch_def
          UserOutputMatch_def UserOutputContains_def)
  have v: "fst (run_check ?e quest_hut [] 0 (game_state ())) = questCheckMsg 0 True"
    by code_simp
  have c: "new_calls (game_state ()) (snd (run_check ?e quest_hut [] 0 (game_state ()))) =
     [[''docker'', ''exec'', ''-w'', ''/home/player'', ''goblin-game'', ''bash'', ''-c'',
       ''test -d hut && echo yes'']]"
    by code_simp
  from verdict_ignores_tracked_directory [OF k, of ?e "[]" 0 "''/tmp''" "game_state ()"] v
  have "fst (run_check ?e quest_hut [] 0 (chdir ''/tmp'' (game_state ()))) = questCheckMsg 0 True"
    by simp
  with k v c show ?thesis by simp
qed

text \<open>
  C3, as the code has it. \<open>ExecuteValidation\<close> returns the captured standard output and
  no error, whether the probe ran well or not, and the evaluation always ends with a
  verdict. For a kind that looks into the container the verdict is read from the
  captured output alone: it is true exactly when the trimmed output is the expected
  text, also when the probe failed.
\<close>

theorem probe_failure_never_propagates:
  "snd (fst (ExecuteValidation env c s)) = None \<and>
   fst (fst (ExecuteValidation env c s)) =
     stdout_of (fst (validation_run env (manager s) c (world s))) \<and>
   (\<exists>passed. fst (run_check env q lastOut idx s) = questCheckMsg idx passed) \<and>
   (\<forall>cmd expected. probe_of q = Some (cmd, expected) \<longrightarrow>
      fst (run_check env q lastOut idx s) =
        questCheckMsg idx
          (TrimSpace (stdout_of (fst (validation_run env (manager s) cmd (world s)))) = expected))"
  by (auto simp add: ExecuteValidation_eq run_check_def winCheck_def probe_of_def
        probe_passed_eq Let_def split: if_splits prod.splits)

text \<open>
  The theorem at the quest that asks for the directory \<open>hut\<close> when the probe fails
  and prints nothing: no error, and the verdict is false.
\<close>

theorem probe_failure_never_propagates_witness:
  "probe_of quest_hut = Some (''test -d hut && echo yes'', ''yes'') \<and>
   run_err (fst (validation_run (fixed_env (failed ''exit status 1'' [])) game_manager
                   ''test -d hut && echo yes'' ())) = Some ''exit status 1'' \<and>
   snd (fst (ExecuteValidation (fixed_env (failed ''exit status 1'' []))
               ''test -d hut && echo yes'' (game_state ()))) = None \<and>
   fst (run_check (fixed_env (failed ''exit status 1'' [])) quest_hut [] 0 (game_state ())) =
     questCheckMsg 0 False"
proof -
  let ?e = "fixed_env (failed ''exit status 1'' []) :: unit env"
  have p: "probe_of quest_hut = Some (''test -d hut && echo yes'', ''yes'')"
    by code_simp
  have r: "run_err (fst (validation_run ?e game_manager ''test -d hut && echo yes'' ())) =
             Some ''exit status 1''"
    by code_simp
  have t: "TrimSpace (stdout_of (fst (validation_run ?e (manager (game_state ()))
             ''test -d hut && echo yes'' (world (game_state ()))))) \<noteq> ''yes''"
    by code_simp
  from probe_failure_never_propagates
         [of ?e "''test -d hut && echo yes''" "game_state ()" quest_hut "[]" 0]
  have "snd (fst (ExecuteValidation ?e ''test -d hut && echo yes'' (game_state ()))) = None"
    and "fst (run_check ?e quest_hut [] 0 (game_state ())) = questCheckMsg 0 False"
    using p t by simp_all
  with p r show ?thesis by simp
qed

text \<open>
  C3 as it is stated fails where it says that a probe that fails gives the verdict
  false. The quest expects \<open>grep -c goblin notes.txt\<close> to print \<open>0\<close>; \<open>grep -c\<close>
  prints \<open>0\<close> and ends with status 1 when nothing matches, and the verdict is true.
\<close>

theorem failed_probe_passes_counterexample:
  "probe_of quest_count = Some (''grep -c goblin notes.txt'', ''0'') \<and>
   run_err (fst (validation_run (fixed_env counted_none) game_manager
                   ''grep -c goblin notes.txt'' ())) = Some ''exit status 1'' \<and>
   fst (run_check (fixed_env counted_none) quest_count [] 0 (game_state ())) =
     questCheckMsg 0 True"
  by code_simp

text \<open>
  C8, as the code has it. For a quest of kind \<open>CurrentDirMatch\<close> the verdict is true
  exactly when the target, made absolute against \<open>/home/player\<close> when it does not start
  with a slash, and the tracked directory are equal after \<open>strings.TrimSuffix\<close> has
  removed one trailing slash, if there is one, from each. The state is left as it was:
  no probe runs.
\<close>

theorem current_dir_matches_by_trim_suffix:
  assumes "Type (WinCondition q) = CurrentDirMatch"
  shows "run_check env q lastOut idx s =
          (questCheckMsg idx
             (TrimSuffix (if HasPrefix (Target (WinCondition q)) ''/''
                          then Target (WinCondition q)
                          else ''/home/player/'' @ Target (WinCondition q)) ''/'' =
              TrimSuffix (CurrentDir (manager s)) ''/''), s)"
  using assms
  by (auto simp add: run_check_def winCheck_def currentDirMatches_def Let_def
        CommandOut_def DirExists_def FileExists_def FileContains_def CurrentDirMatch_def
        UserOutputMatch_def UserOutputContains_def)

text \<open>The theorem at the target \<open>hut\<close> with the tracked directory \<open>/home/player/hut\<close>.\<close>

theorem current_dir_matches_by_trim_suffix_witness:
  "Type (WinCondition (quest_goto ''hut'')) = CurrentDirMatch \<and>
   run_check (fixed_env (printed [])) (quest_goto ''hut'') [] 0
     (chdir ''/home/player/hut'' (game_state ())) =
     (questCheckMsg 0 True, chdir ''/home/player/hut'' (game_state ()))"
proof -
  have k: "Type (WinCondition (quest_goto ''hut'')) = CurrentDirMatch"
    by (simp add: quest_goto_def quest_def)
  have t: "(TrimSuffix (if HasPrefix (Target (WinCondition (quest_goto ''hut''))) ''/''
                        then Target (WinCondition (quest_goto ''hut''))
                        else ''/home/player/'' @ Target (WinCondition (quest_goto ''hut''))) ''/'' =
            TrimSuffix (CurrentDir (manager (chdir ''/home/player/hut'' (game_state ())))) ''/'')
           = True"
    by code_simp
  show ?thesis
    using current_dir_matches_by_trim_suffix
            [OF k, of "fixed_env (printed [])" "[]" 0 "chdir ''/home/player/hut'' (game_state ())"]
    unfolding t using k by simp
qed

text \<open>
  C8 as it is stated, with all trailing separators stripped, differs from the code
  where two slashes end a path. With the target \<open>hut//\<close> and the tracked directory
  \<open>/home/player/hut\<close>, and with the target \<open>/\<close> and the tracked directory \<open>//\<close> (what
  \<open>pwd\<close> prints after \<open>cd //\<close>), the stated comparison holds and the verdict is false.
\<close>

theorem two_trailing_slashes_counterexample:
  "spec_currentDirMatches (Target (WinCondition (quest_goto ''hut//''))) ''/home/player/hut'' \<and>
   fst (run_check (fixed_env (printed [])) (quest_goto ''hut//'') [] 0
          (chdir ''/home/player/hut'' (game_state ()))) = questCheckMsg 0 False \<and>
   spec_currentDirMatches (Target (WinCondition (quest_goto ''/''))) ''//'' \<and>
   fst (run_check (fixed_env (printed [])) (quest_goto ''/'') [] 0
          (chdir ''//'' (game_state ()))) = questCheckMsg 0 False"
  by code_simp

section \<open>The quest state machine\<close>

text \<open>
  C7 at a failing command. Two quests: make the directory \<open>hut\<close>, then see \<open>hello\<close> in
  the output of a command. The user types \<open>mkdir hut && echo hello\<close>: the first quest
  is done, and the output \<open>hello\<close> is kept in \<open>lastOutput\<close>. The user then types
  \<open>frobnicate\<close>, which fails with an error and no output. \<open>Update\<close> leaves \<open>lastOutput\<close>
  as it was when the command failed, so the check it returns compares the output of
  the earlier command, and the second quest is done.
\<close>

theorem failed_command_checks_stale_output:
  "(case command_cycle (shell_env hut_session) (NewModel two_quests 0)
           ''mkdir hut && echo hello'' (game_state ()) of
      (Inl p, s1) \<Rightarrow> False
    | (Inr (m1, c1), s1) \<Rightarrow>
        currentQuestIdx m1 = 1 \<and>
        lastOutput m1 = ''hello'' @ [CHR 0x0A] \<and>
        fst (ExecuteCommand (shell_env hut_session) ''frobnicate'' s1) =
          ([], Some (''bash: line 1: frobnicate: command not found'' @ [CHR 0x0A])) \<and>
        (case Update (shell_env hut_session) m1
                (commandResultMsg []
                   (Some (''bash: line 1: frobnicate: command not found'' @ [CHR 0x0A]))) s1 of
           (Inl p, s2) \<Rightarrow> False
         | (Inr (m2, c2), s2) \<Rightarrow>
             lastOutput m2 = ''hello'' @ [CHR 0x0A] \<and>
             c2 = CheckCmd quest_read (''hello'' @ [CHR 0x0A]) 1) \<and>
        (case command_cycle (shell_env hut_session) m1 ''frobnicate'' s1 of
           (Inl p, s3) \<Rightarrow> False
         | (Inr (m3, c3), s3) \<Rightarrow> currentQuestIdx m3 = 2))"
  by code_simp

lemma startQuest_idx:
  "startQuest m idx = Inr (m', c) \<Longrightarrow> idx = currentQuestIdx m \<Longrightarrow>
     currentQuestIdx m' = currentQuestIdx m"
  by (auto simp: startQuest_def split: if_splits sum.splits)

lemma Update_containerReady_idx:
  "Update_containerReady env m err s = (Inr (m', c), s') \<Longrightarrow>
     currentQuestIdx m' = currentQuestIdx m"
  by (cases err)
     (auto simp: Update_containerReady_def Let_def
           split: prod.splits option.splits sum.splits if_splits dest!: startQuest_idx)

lemma Update_commandResult_idx:
  "Update_commandResult m out err = Inr (m', c) \<Longrightarrow> currentQuestIdx m' = currentQuestIdx m"
  by (cases err) (auto simp: Update_commandResult_def Let_def split: sum.splits)

lemma Update_enter_idx:
  "Update_enter m cur = (m', c) \<Longrightarrow> currentQuestIdx m' = currentQuestIdx m"
  by (auto simp: Update_enter_def Let_def split: if_splits)

lemma Update_key_idx:
  "Update_key env m t runes s = (Inr (m', c), s') \<Longrightarrow> currentQuestIdx m' = currentQuestIdx m"
  by (auto simp: Update_key_def Let_def split: if_splits sum.splits dest: Update_enter_idx)

lemma Update_questCheck_idx:
  "Update_questCheck env m idx passed s = (Inr (m', c), s') \<Longrightarrow>
     currentQuestIdx m' = (if passed then idx + 1 else currentQuestIdx m)"
  by (auto simp: Update_questCheck_def Let_def split: if_splits sum.splits prod.splits)

lemma Update_questCheck_saves:
  "Update_questCheck env m idx True s = (Inr (m', c), s') \<Longrightarrow>
     world s' = snd (save_state env \<lparr>CurrentQuestID = idx + 1, MsgLog = []\<rparr> (world s))"
  by (auto simp: Update_questCheck_def Let_def split: if_splits sum.splits prod.splits)

lemma Update_idx:
  "Update env m msg s = (Inr (m', c), s') \<Longrightarrow>
     currentQuestIdx m' =
       (case msg of
          questCheckMsg idx passed \<Rightarrow> if passed then idx + 1 else currentQuestIdx m
        | _ \<Rightarrow> currentQuestIdx m)"
  by (cases msg)
     (auto dest: Update_containerReady_idx Update_commandResult_idx Update_key_idx
                 Update_questCheck_idx)

lemma checkWinCondition_current:
  "checkWinCondition m = Inr (CheckCmd q lo idx) \<Longrightarrow>
     idx = currentQuestIdx m \<and> lo = lastOutput m \<and> index (quests m) (currentQuestIdx m) = Inr q"
  by (auto simp: checkWinCondition_def split: if_splits sum.splits)

lemma Update_commandResult_check:
  "Update_commandResult m out err = Inr (m1, CheckCmd q lo idx) \<Longrightarrow>
     idx = currentQuestIdx m \<and> currentQuestIdx m1 = currentQuestIdx m \<and>
     index (quests m) (currentQuestIdx m) = Inr q"
  by (cases err)
     (auto simp: Update_commandResult_def Let_def split: sum.splits
           dest!: checkWinCondition_current)

lemma command_cycle_idx:
  assumes "command_cycle env m cmd s = (Inr (m', c), s')"
  shows "currentQuestIdx m' = currentQuestIdx m \<or> currentQuestIdx m' = currentQuestIdx m + 1"
proof -
  obtain out err s1 where e: "ExecuteCommand env cmd s = ((out, err), s1)"
    by (metis prod.exhaust)
  show ?thesis
  proof (cases "Update_commandResult m out err")
    case (Inl p)
    with assms e show ?thesis by (simp add: command_cycle_def)
  next
    case (Inr mc)
    obtain m1 c1 where mc: "mc = (m1, c1)" by (cases mc)
    show ?thesis
    proof (cases c1)
      case (CheckCmd q lo idx)
      from Inr mc CheckCmd
      have i: "idx = currentQuestIdx m" "currentQuestIdx m1 = currentQuestIdx m"
        using Update_commandResult_check by blast+
      obtain msg s3 where r: "run_check env q lo idx s1 = (msg, s3)" by (metis prod.exhaust)
      then obtain passed where msg: "msg = questCheckMsg idx passed"
        by (auto simp: run_check_def split: prod.splits)
      from assms e Inr mc CheckCmd r msg
      have "Update_questCheck env m1 idx passed s3 = (Inr (m', c), s')"
        by (simp add: command_cycle_def)
      from Update_questCheck_idx [OF this] i show ?thesis by (auto split: if_splits)
    qed (use assms e Inr mc in \<open>auto simp: command_cycle_def dest: Update_commandResult_idx\<close>)
  qed
qed

lemma command_cycle_verdict:
  assumes e: "ExecuteCommand env cmd s = ((out, err), s1)"
      and u: "Update env m (commandResultMsg out err) s1 = (Inr (m1, CheckCmd q lo i), s1')"
      and c: "command_cycle env m cmd s = (Inr (m2, c2), s2)"
  shows "index (quests m) (currentQuestIdx m) = Inr q \<and>
         currentQuestIdx m2 =
           (if fst (winCheck env q lo s1) then currentQuestIdx m + 1 else currentQuestIdx m)"
proof -
  from u have r: "Update_commandResult m out err = Inr (m1, CheckCmd q lo i)" by simp
  note k = Update_commandResult_check [OF r]
  obtain passed s3 where w: "winCheck env q lo s1 = (passed, s3)"
    by (cases "winCheck env q lo s1")
  from c e r w have "Update_questCheck env m1 i passed s3 = (Inr (m2, c2), s2)"
    by (simp add: command_cycle_def run_check_def)
  from Update_questCheck_idx [OF this] k w show ?thesis by simp
qed

lemma Update_other_idx:
  assumes "Update env m msg s = (Inr (m', c), s')"
      and "\<forall>idx. msg \<noteq> questCheckMsg idx True"
  shows "currentQuestIdx m' = currentQuestIdx m"
  using Update_idx [OF assms(1)] assms(2) by (cases msg) auto

text \<open>
  C4, as the code has it. \<open>Update\<close> changes the quest index for no message but a
  passed check. A passed check that carries the current index adds exactly one to it
  and hands the new index to \<open>SaveState\<close>; a check that \<open>checkWinCondition\<close> builds
  carries the current index and the quest at it. So when a user command, its check and
  the verdict are handled in order, with no other message in between, the quest
  checked is the one at the current index, and the index stays as it was when the
  verdict is false and grows by exactly one when it is true. At the start of the
  program \<open>NewModel\<close> takes the saved index as the current one when it is an index of
  the quest list.
\<close>

theorem quest_cursor_in_order:
  "(Update env m msg s = (Inr (m', c), s') \<and> (\<forall>idx. msg \<noteq> questCheckMsg idx True) \<longrightarrow>
      currentQuestIdx m' = currentQuestIdx m) \<and>
   (Update env m (questCheckMsg (currentQuestIdx m) True) s = (Inr (m3, c3), s3) \<longrightarrow>
      currentQuestIdx m3 = currentQuestIdx m + 1 \<and>
      world s3 =
        snd (save_state env \<lparr>CurrentQuestID = currentQuestIdx m + 1, MsgLog = []\<rparr> (world s))) \<and>
   (checkWinCondition m = Inr (CheckCmd q lo i) \<longrightarrow>
      i = currentQuestIdx m \<and> index (quests m) (currentQuestIdx m) = Inr q) \<and>
   (ExecuteCommand env cmd s = ((out, err), s1) \<and>
    Update env m (commandResultMsg out err) s1 = (Inr (m1, CheckCmd q1 lo1 i1), s1') \<and>
    command_cycle env m cmd s = (Inr (m2, c2), s2) \<longrightarrow>
      index (quests m) (currentQuestIdx m) = Inr q1 \<and>
      currentQuestIdx m2 =
        (if fst (winCheck env q1 lo1 s1) then currentQuestIdx m + 1 else currentQuestIdx m)) \<and>
   (command_cycle env m cmd s = (Inr (m2, c2), s2) \<longrightarrow>
      currentQuestIdx m2 = currentQuestIdx m \<or> currentQuestIdx m2 = currentQuestIdx m + 1) \<and>
   (load_state env w = Inr g \<and> 0 \<le> CurrentQuestID g \<and> CurrentQuestID g < int (length qs) \<longrightarrow>
      currentQuestIdx (NewModel qs (startQuestIdx env 0 w)) = CurrentQuestID g)"
proof (intro conjI impI)
  assume "Update env m msg s = (Inr (m', c), s') \<and> (\<forall>idx. msg \<noteq> questCheckMsg idx True)"
  then show "currentQuestIdx m' = currentQuestIdx m"
    using Update_other_idx by blast
next
  assume a: "Update env m (questCheckMsg (currentQuestIdx m) True) s = (Inr (m3, c3), s3)"
  from Update_idx [OF a] show "currentQuestIdx m3 = currentQuestIdx m + 1" by simp
  from a show "world s3 =
      snd (save_state env \<lparr>CurrentQuestID = currentQuestIdx m + 1, MsgLog = []\<rparr> (world s))"
    by (simp add: Update_questCheck_saves)
next
  assume a: "checkWinCondition m = Inr (CheckCmd q lo i)"
  from checkWinCondition_current [OF a] show "i = currentQuestIdx m" by simp
  from checkWinCondition_current [OF a]
  show "index (quests m) (currentQuestIdx m) = Inr q" by simp
next
  assume a: "ExecuteCommand env cmd s = ((out, err), s1) \<and>
    Update env m (commandResultMsg out err) s1 = (Inr (m1, CheckCmd q1 lo1 i1), s1') \<and>
    command_cycle env m cmd s = (Inr (m2, c2), s2)"
  then have v: "index (quests m) (currentQuestIdx m) = Inr q1 \<and>
      currentQuestIdx m2 =
        (if fst (winCheck env q1 lo1 s1) then currentQuestIdx m + 1 else currentQuestIdx m)"
    using command_cycle_verdict by blast
  from v show "index (quests m) (currentQuestIdx m) = Inr q1" by simp
  from v show "currentQuestIdx m2 =
        (if fst (winCheck env q1 lo1 s1) then currentQuestIdx m + 1 else currentQuestIdx m)"
    by simp
next
  assume "command_cycle env m cmd s = (Inr (m2, c2), s2)"
  then show "currentQuestIdx m2 = currentQuestIdx m \<or> currentQuestIdx m2 = currentQuestIdx m + 1"
    by (rule command_cycle_idx)
next
  assume "load_state env w = Inr g \<and> 0 \<le> CurrentQuestID g \<and> CurrentQuestID g < int (length qs)"
  then show "currentQuestIdx (NewModel qs (startQuestIdx env 0 w)) = CurrentQuestID g"
    by (simp add: NewModel_def startQuestIdx_def)
qed

text \<open>
  The theorem at the first of two quests. A passed check at the index 0 moves the
  index to 1 and saves 1, and a program started from that save file is at the index 1.
  The command \<open>mkdir hut\<close>, its check and the verdict in order: the quest checked is
  the first, the verdict is true, and the index is 1.
\<close>

theorem quest_cursor_in_order_witness:
  "(case Update box_env (NewModel two_quests 0) (questCheckMsg 0 True) (game_state fresh_box) of
      (Inl p, s') \<Rightarrow> False
    | (Inr (m', c), s') \<Rightarrow>
        currentQuestIdx m' = 1 \<and>
        load_state box_env (world s') = Inr \<lparr>CurrentQuestID = 1, MsgLog = []\<rparr> \<and>
        currentQuestIdx (NewModel two_quests (startQuestIdx box_env 0 (world s'))) = 1) \<and>
   fst (ExecuteCommand (shell_env echo_session) ''mkdir hut'' (game_state ())) = ([], None) \<and>
   fst (winCheck (shell_env echo_session) quest_hut []
          (snd (ExecuteCommand (shell_env echo_session) ''mkdir hut'' (game_state ())))) \<and>
   (case command_cycle (shell_env echo_session) (NewModel two_quests 0) ''mkdir hut''
           (game_state ()) of
      (Inl p, s2) \<Rightarrow> False
    | (Inr (m2, c2), s2) \<Rightarrow> currentQuestIdx m2 = 1)"
proof -
  let ?M = "NewModel two_quests 0"
  have i0: "currentQuestIdx ?M = 0" by code_simp
  let ?u = "Update box_env ?M (questCheckMsg 0 True) (game_state fresh_box)"
  have "case fst ?u of Inl p \<Rightarrow> False | Inr mc \<Rightarrow> True" by code_simp
  then obtain m' c s' where e: "?u = (Inr (m', c), s')"
    by (cases ?u; cases "fst ?u") auto
  note T = quest_cursor_in_order
    [where env = box_env and m = ?M and s = "game_state fresh_box"
       and ?m3.0 = m' and ?c3.0 = c and ?s3.0 = s' and w = "world s'"
       and g = "\<lparr>CurrentQuestID = 1, MsgLog = []\<rparr>" and qs = two_quests]
  from T e i0 have i: "currentQuestIdx m' = 1" by simp
  from T e i0 have "world s' =
      snd (save_state box_env \<lparr>CurrentQuestID = 1, MsgLog = []\<rparr> (world (game_state fresh_box)))"
    by simp
  then have l: "load_state box_env (world s') = Inr \<lparr>CurrentQuestID = 1, MsgLog = []\<rparr>"
    by (simp add: box_env_def)
  from T l have r: "currentQuestIdx (NewModel two_quests (startQuestIdx box_env 0 (world s'))) = 1"
    by (simp add: two_quests_def)
  have A: "(case ?u of
      (Inl p, s') \<Rightarrow> False
    | (Inr (m', c), s') \<Rightarrow>
        currentQuestIdx m' = 1 \<and>
        load_state box_env (world s') = Inr \<lparr>CurrentQuestID = 1, MsgLog = []\<rparr> \<and>
        currentQuestIdx (NewModel two_quests (startQuestIdx box_env 0 (world s'))) = 1)"
    using e i l r by simp
  let ?E = "shell_env echo_session :: unit env"
  let ?x = "ExecuteCommand ?E ''mkdir hut'' (game_state ())"
  have x: "fst ?x = ([], None)" by code_simp
  then have x': "?x = (([], None), snd ?x)" by (simp add: prod_eq_iff)
  have "case Update_commandResult ?M [] None of
          Inr (m1, CheckCmd q lo j) \<Rightarrow> q = quest_hut \<and> lo = [] \<and> j = 0
        | _ \<Rightarrow> False"
    by code_simp
  then obtain m1 where u: "Update_commandResult ?M [] None = Inr (m1, CheckCmd quest_hut [] 0)"
    by (auto split: sum.splits prod.splits Cmd.splits)
  have v: "fst (winCheck ?E quest_hut [] (snd ?x))" by code_simp
  let ?c = "command_cycle ?E ?M ''mkdir hut'' (game_state ())"
  have "case fst ?c of Inl p \<Rightarrow> False | Inr mc \<Rightarrow> True" by code_simp
  then obtain m2 c2 s2 where cy: "?c = (Inr (m2, c2), s2)"
    by (cases ?c; cases "fst ?c") auto
  from quest_cursor_in_order
    [where env = ?E and m = ?M and s = "game_state ()" and cmd = "''mkdir hut''"
       and out = "[]" and err = None and ?s1.0 = "snd ?x" and ?m1.0 = m1 and ?q1.0 = quest_hut
       and ?lo1.0 = "[]" and ?i1.0 = 0 and s1' = "snd ?x" and ?m2.0 = m2 and ?c2.0 = c2
       and ?s2.0 = s2]
    x' u cy v i0
  have "currentQuestIdx m2 = 1" by simp
  with cy
  have B: "(case ?c of (Inl p, s2) \<Rightarrow> False | (Inr (m2, c2), s2) \<Rightarrow> currentQuestIdx m2 = 1)"
    by simp
  from A x v B show ?thesis by simp
qed

text \<open>
  C4 as it is stated fails across a restart and within a run. Across a restart: the
  passed check of the second of two quests moves the index to 2 and saves 2; the
  program started from that save file is at the index 1 again, and its next check is
  of the second quest, which was done. Within a run: the check of the first of three
  quests, built when \<open>mkdir hut\<close> has ended, is still running while \<open>echo hello\<close> is
  typed twice and each time handled with its check, which moves the index to 1 and
  then to 2; when the verdict of the first check comes in, \<open>Update\<close> sets the index to
  1, and the next check is of the second quest, which was done.
\<close>

theorem late_check_and_resume_counterexample:
  "(case Update box_env (NewModel two_quests 1) (questCheckMsg 1 True) (game_state fresh_box) of
      (Inl p, s') \<Rightarrow> False
    | (Inr (m', c), s') \<Rightarrow>
        currentQuestIdx m' = 2 \<and>
        startQuestIdx box_env 0 (world s') = 2 \<and>
        currentQuestIdx (NewModel two_quests (startQuestIdx box_env 0 (world s'))) = 1 \<and>
        checkWinCondition (NewModel two_quests (startQuestIdx box_env 0 (world s'))) =
          Inr (CheckCmd quest_read [] 1)) \<and>
   (case ExecuteCommand (shell_env echo_session) ''mkdir hut'' (game_state ()) of
      ((out, err), s0) \<Rightarrow>
        (case Update (shell_env echo_session) (NewModel three_quests 0)
                (commandResultMsg out err) s0 of
           (Inr (m1, CheckCmd qa loa ia), s1) \<Rightarrow>
             (case command_cycle (shell_env echo_session) m1 ''echo hello'' s1 of
                (Inr (m2, c2), s2) \<Rightarrow>
                  currentQuestIdx m2 = 1 \<and>
                  (case command_cycle (shell_env echo_session) m2 ''echo hello'' s2 of
                     (Inr (m3, c3), s3) \<Rightarrow>
                       currentQuestIdx m3 = 2 \<and>
                       (case run_check (shell_env echo_session) qa loa ia s3 of
                          (msg, s4) \<Rightarrow>
                            msg = questCheckMsg 0 True \<and>
                            (case Update (shell_env echo_session) m3 msg s4 of
                               (Inr (m4, c4), s5) \<Rightarrow>
                                 currentQuestIdx m4 = 1 \<and>
                                 checkWinCondition m4 =
                                   Inr (CheckCmd quest_read (''hello'' @ [CHR 0x0A]) 1)
                             | (Inl p, s5) \<Rightarrow> False))
                   | (Inl p, s3) \<Rightarrow> False)
              | (Inl p, s2) \<Rightarrow> False)
         | _ \<Rightarrow> False))"
  by code_simp

section \<open>Reconciliation\<close>

text \<open>Each block of \<open>RestoreEnvironment\<close> as its error, its world and its calls.\<close>

lemma restore_user_eq:
  "restore_user env q s =
     (if q > 10 then
        (if user_ok env (manager s) (world s) then
           (None, s\<lparr>world := after_root env (manager s) ''id glitch'' (world s),
                    calls := calls s @ [root_call (manager s) ''id glitch'']\<rparr>)
         else
           (case run_err (fst (root_run env (manager s) ''useradd glitch''
                    (after_root env (manager s) ''id glitch'' (world s)))) of
              None \<Rightarrow> None
            | Some e \<Rightarrow> Some (''failed to restore glitch user: '' @ e @ '': '' @
                 combined_of (fst (root_run env (manager s) ''useradd glitch''
                    (after_root env (manager s) ''id glitch'' (world s))))),
            s\<lparr>world := after_root env (manager s) ''useradd glitch''
                         (after_root env (manager s) ''id glitch'' (world s)),
              calls := calls s @ [root_call (manager s) ''id glitch'',
                                  root_call (manager s) ''useradd glitch'']\<rparr>))
      else (None, s))"
  by (simp add: restore_user_def RunAsRoot_eq user_ok_def after_root_def
       split: option.splits)

lemma restore_sudo_eq:
  "restore_sudo env q s =
     (if q > 16 then
        (if sudo_ok env (manager s) (world s) then
           (None, s\<lparr>world := after_validation env (manager s) ''groups glitch'' (world s),
                    calls := calls s @ [validation_call (manager s) ''groups glitch'']\<rparr>)
         else
           (case run_err (fst (root_run env (manager s) ''usermod -aG sudo glitch''
                    (after_validation env (manager s) ''groups glitch'' (world s)))) of
              None \<Rightarrow> None
            | Some e \<Rightarrow> Some (''failed to restore glitch sudo access: '' @ e @ '': '' @
                 combined_of (fst (root_run env (manager s) ''usermod -aG sudo glitch''
                    (after_validation env (manager s) ''groups glitch'' (world s))))),
            s\<lparr>world := after_root env (manager s) ''usermod -aG sudo glitch''
                         (after_validation env (manager s) ''groups glitch'' (world s)),
              calls := calls s @ [validation_call (manager s) ''groups glitch'',
                                  root_call (manager s) ''usermod -aG sudo glitch'']\<rparr>))
      else (None, s))"
  by (simp add: restore_sudo_def RunAsRoot_eq ExecuteValidation_eq sudo_ok_def after_root_def
        after_validation_def split: option.splits)

lemma restore_owner_eq:
  "restore_owner env q s =
     (if q > 11 then
        s\<lparr>world := after_root env (manager s) ''chown glitch /home/player/.safe_house''
                     (after_validation env (manager s) ''test -d /home/player/.safe_house''
                        (world s)),
          calls := calls s @ [validation_call (manager s) ''test -d /home/player/.safe_house'',
                              root_call (manager s) ''chown glitch /home/player/.safe_house'']\<rparr>
      else s)"
  by (simp add: restore_owner_def RunAsRoot_eq ExecuteValidation_eq after_root_def
        after_validation_def)

lemma restore_mode_eq:
  "restore_mode env q s =
     (if q > 12 then
        s\<lparr>world := after_root env (manager s) ''chmod 700 /home/player/.safe_house''
                     (after_validation env (manager s) ''test -d /home/player/.safe_house''
                        (world s)),
          calls := calls s @ [validation_call (manager s) ''test -d /home/player/.safe_house'',
                              root_call (manager s) ''chmod 700 /home/player/.safe_house'']\<rparr>
      else s)"
  by (simp add: restore_mode_def RunAsRoot_eq ExecuteValidation_eq after_root_def
        after_validation_def)

lemma call_distinct:
  "root_call m ''useradd glitch'' \<noteq> root_call m ''id glitch''"
  "root_call m ''useradd glitch'' \<noteq> root_call m ''chown glitch /home/player/.safe_house''"
  "root_call m ''useradd glitch'' \<noteq> root_call m ''chmod 700 /home/player/.safe_house''"
  "root_call m ''useradd glitch'' \<noteq> validation_call m c"
  "root_call m ''usermod -aG sudo glitch'' \<noteq> root_call m ''id glitch''"
  "root_call m ''usermod -aG sudo glitch'' \<noteq> root_call m ''chown glitch /home/player/.safe_house''"
  "root_call m ''usermod -aG sudo glitch'' \<noteq> root_call m ''chmod 700 /home/player/.safe_house''"
  "root_call m ''usermod -aG sudo glitch'' \<noteq> validation_call m c"
  by (simp_all add: root_call_def root_args_def validation_call_def validation_args_def)

text \<open>
  C5 at the saved index 12. The quest file numbers its quests from 1, so the game
  starts at the index 12 with the quest 13: the quests 1 to 12 are done. The container
  is just created (no user \<open>glitch\<close>, the directory with the mode 755). The update for
  the message that the container is ready leaves the state that reconciliation leaves.
  Reconciliation with the index 12 calls \<open>id glitch\<close>, \<open>useradd glitch\<close>, \<open>test -d\<close> and
  the \<open>chown\<close> of quest 11, returns no error, and does not call the \<open>chmod 700\<close> of
  quest 12: the mode is still 755. With the index 13 the same calls are followed by
  \<open>test -d\<close> and the \<open>chmod 700\<close>, and the mode is 700.
\<close>

theorem resume_at_12_skips_chmod:
  "startQuestIdx box_env 0 (saved_box 12) = 12 \<and>
   currentQuestIdx (NewModel numbered_quests 12) = 12 \<and>
   map_sum id ID (index numbered_quests 12) = Inr 13 \<and>
   fst (RestoreEnvironment box_env 12 (game_state (saved_box 12))) = None \<and>
   snd (Update box_env (NewModel numbered_quests 12) (containerReadyMsg None)
          (game_state (saved_box 12))) =
     snd (RestoreEnvironment box_env 12 (game_state (saved_box 12))) \<and>
   map last (new_calls (game_state (saved_box 12))
               (snd (RestoreEnvironment box_env 12 (game_state (saved_box 12))))) =
     [''id glitch'', ''useradd glitch'', ''test -d /home/player/.safe_house'',
      ''chown glitch /home/player/.safe_house''] \<and>
   safe_house_owner (world (snd (RestoreEnvironment box_env 12 (game_state (saved_box 12))))) =
     ''glitch'' \<and>
   safe_house_mode (world (game_state (saved_box 12))) = ''755'' \<and>
   safe_house_mode (world (snd (RestoreEnvironment box_env 12 (game_state (saved_box 12))))) =
     ''755'' \<and>
   map last (new_calls (game_state (saved_box 13))
               (snd (RestoreEnvironment box_env 13 (game_state (saved_box 13))))) =
     [''id glitch'', ''useradd glitch'', ''test -d /home/player/.safe_house'',
      ''chown glitch /home/player/.safe_house'', ''test -d /home/player/.safe_house'',
      ''chmod 700 /home/player/.safe_house''] \<and>
   safe_house_mode (world (snd (RestoreEnvironment box_env 13 (game_state (saved_box 13))))) =
     ''700''"
  by code_simp

lemma assumptionsD:
  assumes "container_assumptions env m"
  shows "after_root env m ''id glitch'' w = w"
    and "after_validation env m ''groups glitch'' w = w"
    and "after_validation env m ''test -d /home/player/.safe_house'' w = w"
    and "run_err (fst (root_run env m ''useradd glitch'' w)) = None \<Longrightarrow>
          user_ok env m (after_root env m ''useradd glitch'' w)"
    and "run_err (fst (root_run env m ''usermod -aG sudo glitch'' w)) = None \<Longrightarrow>
          sudo_ok env m (after_root env m ''usermod -aG sudo glitch'' w)"
    and "user_ok env m w \<Longrightarrow> user_ok env m (after_root env m ''usermod -aG sudo glitch'' w)"
    and "user_ok env m w \<Longrightarrow> user_ok env m (after_root env m ''chown glitch /home/player/.safe_house'' w)"
    and "user_ok env m w \<Longrightarrow> user_ok env m (after_root env m ''chmod 700 /home/player/.safe_house'' w)"
    and "sudo_ok env m w \<Longrightarrow> sudo_ok env m (after_root env m ''chown glitch /home/player/.safe_house'' w)"
    and "sudo_ok env m w \<Longrightarrow> sudo_ok env m (after_root env m ''chmod 700 /home/player/.safe_house'' w)"
    and "after_root env m ''chown glitch /home/player/.safe_house''
            (after_root env m ''chown glitch /home/player/.safe_house'' w) =
          after_root env m ''chown glitch /home/player/.safe_house'' w"
    and "after_root env m ''chmod 700 /home/player/.safe_house''
            (after_root env m ''chmod 700 /home/player/.safe_house'' w) =
          after_root env m ''chmod 700 /home/player/.safe_house'' w"
    and "after_root env m ''chown glitch /home/player/.safe_house''
            (after_root env m ''chmod 700 /home/player/.safe_house'' w) =
          after_root env m ''chmod 700 /home/player/.safe_house''
            (after_root env m ''chown glitch /home/player/.safe_house'' w)"
  using assms unfolding container_assumptions_def by blast+


lemma restore_user_ok:
  assumes A: "container_assumptions env (manager s)"
      and r: "restore_user env q s = (None, sa)"
  shows "manager sa = manager s" and "q > 10 \<Longrightarrow> user_ok env (manager s) (world sa)"
  using r assumptionsD(4) [OF A]
  by (auto simp add: restore_user_eq assumptionsD(1) [OF A] split: if_splits option.splits)

lemma restore_sudo_ok:
  assumes A: "container_assumptions env (manager s)"
      and r: "restore_sudo env q s = (None, sb)"
  shows "manager sb = manager s"
    and "user_ok env (manager s) (world s) \<Longrightarrow> user_ok env (manager s) (world sb)"
    and "q > 16 \<Longrightarrow> sudo_ok env (manager s) (world sb)"
  using r assumptionsD(5) [OF A] assumptionsD(6) [OF A]
  by (auto simp add: restore_sudo_eq assumptionsD(2) [OF A] split: if_splits option.splits)

lemma restore_owner_ok:
  assumes A: "container_assumptions env (manager s)"
  shows "manager (restore_owner env q s) = manager s"
    and "user_ok env (manager s) (world s) \<Longrightarrow> user_ok env (manager s) (world (restore_owner env q s))"
    and "sudo_ok env (manager s) (world s) \<Longrightarrow> sudo_ok env (manager s) (world (restore_owner env q s))"
    and "world (restore_owner env q s) =
           (if q > 11 then after_root env (manager s) ''chown glitch /home/player/.safe_house'' (world s)
            else world s)"
  using assumptionsD(7) [OF A] assumptionsD(9) [OF A]
  by (auto simp add: restore_owner_eq assumptionsD(3) [OF A])

lemma restore_mode_ok:
  assumes A: "container_assumptions env (manager s)"
  shows "manager (restore_mode env q s) = manager s"
    and "user_ok env (manager s) (world s) \<Longrightarrow> user_ok env (manager s) (world (restore_mode env q s))"
    and "sudo_ok env (manager s) (world s) \<Longrightarrow> sudo_ok env (manager s) (world (restore_mode env q s))"
    and "world (restore_mode env q s) =
           (if q > 12 then after_root env (manager s) ''chmod 700 /home/player/.safe_house'' (world s)
            else world s)"
  using assumptionsD(8) [OF A] assumptionsD(10) [OF A]
  by (auto simp add: restore_mode_eq assumptionsD(3) [OF A])

text \<open>What the first run leaves behind when it returns no error.\<close>

lemma first_run:
  assumes A: "container_assumptions env (manager s)"
      and ok: "fst (RestoreEnvironment env q s) = None"
  shows "manager (snd (RestoreEnvironment env q s)) = manager s"
    and "q > 10 \<Longrightarrow> user_ok env (manager s) (world (snd (RestoreEnvironment env q s)))"
    and "q > 16 \<Longrightarrow> sudo_ok env (manager s) (world (snd (RestoreEnvironment env q s)))"
    and "q > 11 \<Longrightarrow> after_root env (manager s) ''chown glitch /home/player/.safe_house''
            (world (snd (RestoreEnvironment env q s))) = world (snd (RestoreEnvironment env q s))"
    and "q > 12 \<Longrightarrow> after_root env (manager s) ''chmod 700 /home/player/.safe_house''
            (world (snd (RestoreEnvironment env q s))) = world (snd (RestoreEnvironment env q s))"
proof -
  obtain ea sa where ra: "restore_user env q s = (ea, sa)" by (cases "restore_user env q s")
  obtain eb sb where rb: "restore_sudo env q sa = (eb, sb)" by (cases "restore_sudo env q sa")
  from ok ra have ea: "ea = None"
    by (cases ea) (simp_all add: RestoreEnvironment_def)
  from ok ra rb ea have eb: "eb = None"
    by (cases eb) (simp_all add: RestoreEnvironment_def)
  let ?sc = "restore_owner env q sb"
  let ?sd = "restore_mode env q ?sc"
  have res: "snd (RestoreEnvironment env q s) = ?sd"
    using ra rb ea eb by (simp add: RestoreEnvironment_def)
  note ua = restore_user_ok [OF A ra [unfolded ea]]
  have Aa: "container_assumptions env (manager sa)" using A ua(1) by simp
  note ub = restore_sudo_ok [OF Aa rb [unfolded eb]]
  have Ab: "container_assumptions env (manager sb)" using Aa ub(1) by simp
  note uc = restore_owner_ok [OF Ab, of q]
  have Ac: "container_assumptions env (manager ?sc)" using Ab uc(1) by simp
  note ud = restore_mode_ok [OF Ac, of q]
  have mb: "manager sb = manager s" using ua(1) ub(1) by simp
  have mc: "manager ?sc = manager s" using uc(1) mb by simp
  show "manager (snd (RestoreEnvironment env q s)) = manager s"
    using res ud(1) mc by simp
  show "user_ok env (manager s) (world (snd (RestoreEnvironment env q s)))" if "q > 10"
    using that res ua(2) ub(2) uc(2) ud(2) ua(1) mb mc by simp
  show "sudo_ok env (manager s) (world (snd (RestoreEnvironment env q s)))" if "q > 16"
    using that res ub(3) uc(3) ud(3) ua(1) mb mc by simp
  have wd: "world ?sd =
      (if q > 12 then after_root env (manager s) ''chmod 700 /home/player/.safe_house''
            (if q > 11 then after_root env (manager s) ''chown glitch /home/player/.safe_house'' (world sb)
             else world sb)
       else (if q > 11 then after_root env (manager s) ''chown glitch /home/player/.safe_house'' (world sb)
             else world sb))"
    using ud(4) uc(4) mb mc by simp
  show "after_root env (manager s) ''chown glitch /home/player/.safe_house''
            (world (snd (RestoreEnvironment env q s))) = world (snd (RestoreEnvironment env q s))"
    if "q > 11"
    using that res wd assumptionsD(11) [OF A] assumptionsD(13) [OF A] by simp
  show "after_root env (manager s) ''chmod 700 /home/player/.safe_house''
            (world (snd (RestoreEnvironment env q s))) = world (snd (RestoreEnvironment env q s))"
    if "q > 12"
    using that res wd assumptionsD(12) [OF A] by simp
qed

text \<open>A run on a container in which everything is in place.\<close>

lemma settled_run:
  assumes A: "container_assumptions env (manager s)"
      and u: "q > 10 \<Longrightarrow> user_ok env (manager s) (world s)"
      and g: "q > 16 \<Longrightarrow> sudo_ok env (manager s) (world s)"
      and c: "q > 11 \<Longrightarrow> after_root env (manager s) ''chown glitch /home/player/.safe_house''
                (world s) = world s"
      and p: "q > 12 \<Longrightarrow> after_root env (manager s) ''chmod 700 /home/player/.safe_house''
                (world s) = world s"
  shows "RestoreEnvironment env q s =
     (None, s\<lparr>calls := calls s
          @ (if q > 10 then [root_call (manager s) ''id glitch''] else [])
          @ (if q > 16 then [validation_call (manager s) ''groups glitch''] else [])
          @ (if q > 11 then [validation_call (manager s) ''test -d /home/player/.safe_house'',
                             root_call (manager s) ''chown glitch /home/player/.safe_house''] else [])
          @ (if q > 12 then [validation_call (manager s) ''test -d /home/player/.safe_house'',
                             root_call (manager s) ''chmod 700 /home/player/.safe_house''] else [])\<rparr>)"
proof -
  define sa where "sa = s\<lparr>calls := calls s @ (if q > 10 then [root_call (manager s) ''id glitch''] else [])\<rparr>"
  define sb where "sb = sa\<lparr>calls := calls sa @ (if q > 16 then [validation_call (manager s) ''groups glitch''] else [])\<rparr>"
  define sc where "sc = sb\<lparr>calls := calls sb @ (if q > 11 then [validation_call (manager s) ''test -d /home/player/.safe_house'',
                             root_call (manager s) ''chown glitch /home/player/.safe_house''] else [])\<rparr>"
  define sd where "sd = sc\<lparr>calls := calls sc @ (if q > 12 then [validation_call (manager s) ''test -d /home/player/.safe_house'',
                             root_call (manager s) ''chmod 700 /home/player/.safe_house''] else [])\<rparr>"
  have ra: "restore_user env q s = (None, sa)"
    using u by (simp add: sa_def restore_user_eq assumptionsD(1) [OF A])
  have rb: "restore_sudo env q sa = (None, sb)"
    using g by (simp add: sa_def sb_def restore_sudo_eq assumptionsD(2) [OF A])
  have rc: "restore_owner env q sb = sc"
    using c by (simp add: sa_def sb_def sc_def restore_owner_eq assumptionsD(3) [OF A])
  have rd: "restore_mode env q sc = sd"
    using p by (simp add: sa_def sb_def sc_def sd_def restore_mode_eq assumptionsD(3) [OF A])
  have "RestoreEnvironment env q s = (None, sd)"
    by (simp add: RestoreEnvironment_def ra rb rc rd)
  then show ?thesis
    by (simp add: sa_def sb_def sc_def sd_def)
qed


lemma box_root:
  "root_run box_env m ''id glitch'' b =
     (if glitch_exists b then (printed (''uid=1001(glitch) gid=1001(glitch)'' @ [CHR 0x0A]), b)
      else (failed ''exit status 1'' ''id: glitch: no such user'', b))"
  "root_run box_env m ''useradd glitch'' b =
     (if glitch_exists b then (failed ''exit status 9'' ''useradd: user glitch already exists'', b)
      else (printed [], b\<lparr>glitch_exists := True\<rparr>))"
  "root_run box_env m ''usermod -aG sudo glitch'' b =
     (if glitch_exists b then (printed [], b\<lparr>glitch_sudo := True\<rparr>)
      else (failed ''exit status 6'' ''usermod: user glitch does not exist'', b))"
  "root_run box_env m ''chown glitch /home/player/.safe_house'' b =
     (if glitch_exists b then (printed [], b\<lparr>safe_house_owner := ''glitch''\<rparr>)
      else (failed ''exit status 1'' ''chown: invalid user: glitch'', b))"
  "root_run box_env m ''chmod 700 /home/player/.safe_house'' b =
     (printed [], b\<lparr>safe_house_mode := ''700''\<rparr>)"
  by (simp_all add: root_run_def box_env_def box_run_def root_args_def)

lemma box_validation:
  "validation_run box_env m ''groups glitch'' b =
     (if glitch_exists b then
        (printed ((if glitch_sudo b then ''glitch : glitch sudo'' else ''glitch : glitch'')
                  @ [CHR 0x0A]), b)
      else (failed ''exit status 1'' ''groups: glitch: no such user'', b))"
  "validation_run box_env m ''test -d /home/player/.safe_house'' b = (printed [], b)"
  by (simp_all add: validation_run_def box_env_def box_run_def validation_args_def)

lemma box_user_ok: "user_ok box_env m b = glitch_exists b"
  by (simp add: user_ok_def box_root printed_def failed_def)

lemma box_sudo_ok: "sudo_ok box_env m b = (glitch_exists b \<and> glitch_sudo b)"
  by (simp add: sudo_ok_def box_validation printed_def failed_def stdout_of_def HasPrefix_def)

lemma box_assumptions: "container_assumptions box_env m"
  unfolding container_assumptions_def
  by (simp add: after_root_def after_validation_def box_root box_validation box_user_ok
        box_sudo_ok printed_def failed_def)

text \<open>
  C6, as the code has it. When the first run of reconciliation returns no error, and
  the tools of the container behave as \<open>container_assumptions\<close> says, a second run
  right after it returns no error, leaves the world as the first run left it, and
  calls neither \<open>useradd\<close> nor \<open>usermod\<close>.
\<close>

theorem second_reconcile_settled:
  assumes A: "container_assumptions env (manager s)"
      and ok: "fst (RestoreEnvironment env q s) = None"
  shows "fst (RestoreEnvironment env q (snd (RestoreEnvironment env q s))) = None \<and>
         world (snd (RestoreEnvironment env q (snd (RestoreEnvironment env q s)))) =
           world (snd (RestoreEnvironment env q s)) \<and>
         root_call (manager s) ''useradd glitch'' \<notin>
           set (new_calls (snd (RestoreEnvironment env q s))
                  (snd (RestoreEnvironment env q (snd (RestoreEnvironment env q s))))) \<and>
         root_call (manager s) ''usermod -aG sudo glitch'' \<notin>
           set (new_calls (snd (RestoreEnvironment env q s))
                  (snd (RestoreEnvironment env q (snd (RestoreEnvironment env q s)))))"
proof -
  let ?s1 = "snd (RestoreEnvironment env q s)"
  note f = first_run [OF A ok]
  have A1: "container_assumptions env (manager ?s1)" using A f(1) by simp
  have "RestoreEnvironment env q ?s1 =
     (None, ?s1\<lparr>calls := calls ?s1
          @ (if q > 10 then [root_call (manager ?s1) ''id glitch''] else [])
          @ (if q > 16 then [validation_call (manager ?s1) ''groups glitch''] else [])
          @ (if q > 11 then [validation_call (manager ?s1) ''test -d /home/player/.safe_house'',
                             root_call (manager ?s1) ''chown glitch /home/player/.safe_house''] else [])
          @ (if q > 12 then [validation_call (manager ?s1) ''test -d /home/player/.safe_house'',
                             root_call (manager ?s1) ''chmod 700 /home/player/.safe_house''] else [])\<rparr>)"
    by (rule settled_run [OF A1]) (use f in simp_all)
  then show ?thesis
    by (simp add: new_calls_def f(1) call_distinct)
qed


text \<open>
  The theorem in the small container, just created, with the quest index 17: the first
  run creates the user, adds it to the group and sets owner and mode; the second run
  only probes and repeats the \<open>chown\<close> and the \<open>chmod\<close>.
\<close>

theorem second_reconcile_settled_witness:
  "container_assumptions box_env (manager (game_state fresh_box)) \<and>
   fst (RestoreEnvironment box_env 17 (game_state fresh_box)) = None \<and>
   map last (new_calls (game_state fresh_box)
               (snd (RestoreEnvironment box_env 17 (game_state fresh_box)))) =
     [''id glitch'', ''useradd glitch'', ''groups glitch'', ''usermod -aG sudo glitch'',
      ''test -d /home/player/.safe_house'', ''chown glitch /home/player/.safe_house'',
      ''test -d /home/player/.safe_house'', ''chmod 700 /home/player/.safe_house''] \<and>
   fst (RestoreEnvironment box_env 17
          (snd (RestoreEnvironment box_env 17 (game_state fresh_box)))) = None \<and>
   world (snd (RestoreEnvironment box_env 17
                 (snd (RestoreEnvironment box_env 17 (game_state fresh_box))))) =
     world (snd (RestoreEnvironment box_env 17 (game_state fresh_box))) \<and>
   map last (new_calls (snd (RestoreEnvironment box_env 17 (game_state fresh_box)))
               (snd (RestoreEnvironment box_env 17
                       (snd (RestoreEnvironment box_env 17 (game_state fresh_box)))))) =
     [''id glitch'', ''groups glitch'',
      ''test -d /home/player/.safe_house'', ''chown glitch /home/player/.safe_house'',
      ''test -d /home/player/.safe_house'', ''chmod 700 /home/player/.safe_house'']"
proof -
  have A: "container_assumptions box_env (manager (game_state fresh_box))"
    by (rule box_assumptions)
  have ok: "fst (RestoreEnvironment box_env 17 (game_state fresh_box)) = None"
    by code_simp
  have c1: "map last (new_calls (game_state fresh_box)
               (snd (RestoreEnvironment box_env 17 (game_state fresh_box)))) =
     [''id glitch'', ''useradd glitch'', ''groups glitch'', ''usermod -aG sudo glitch'',
      ''test -d /home/player/.safe_house'', ''chown glitch /home/player/.safe_house'',
      ''test -d /home/player/.safe_house'', ''chmod 700 /home/player/.safe_house'']"
    by code_simp
  have c2: "map last (new_calls (snd (RestoreEnvironment box_env 17 (game_state fresh_box)))
               (snd (RestoreEnvironment box_env 17
                       (snd (RestoreEnvironment box_env 17 (game_state fresh_box)))))) =
     [''id glitch'', ''groups glitch'',
      ''test -d /home/player/.safe_house'', ''chown glitch /home/player/.safe_house'',
      ''test -d /home/player/.safe_house'', ''chmod 700 /home/player/.safe_house'']"
    by code_simp
  from second_reconcile_settled [OF A ok] A ok c1 c2 show ?thesis by simp
qed

text \<open>
  C6 as it is stated fails where it says that the second run never returns an error.
  When the player container is not there, every call of the runtime fails: the first
  run returns the error of \<open>useradd\<close>, the container is as it was, and the second run
  returns the same error.
\<close>

theorem second_reconcile_fails_counterexample:
  "fst (RestoreEnvironment
          (fixed_env (failed ''exit status 125'' ''Error: no container with name goblin-game found''))
          11 (game_state ())) \<noteq> None \<and>
   world (snd (RestoreEnvironment
          (fixed_env (failed ''exit status 125'' ''Error: no container with name goblin-game found''))
          11 (game_state ()))) = world (game_state ()) \<and>
   fst (RestoreEnvironment
          (fixed_env (failed ''exit status 125'' ''Error: no container with name goblin-game found''))
          11
          (snd (RestoreEnvironment
                  (fixed_env (failed ''exit status 125''
                     ''Error: no container with name goblin-game found''))
                  11 (game_state ())))) =
     Some ''failed to restore glitch user: exit status 125: Error: no container with name goblin-game found''"
  by code_simp

end
